theory Spec2Isabelle
  imports Complex_Main "HOL-Library.AList"
begin

section \<open>Conventions of the embedding\<close>

text \<open>
  The Python sources compute with \<open>float\<close>. The embedding of the simulation reads
  every float as a \<^typ>\<open>real\<close>: exact arithmetic, which agrees with the code on the
  comparisons and bounds proved of it. Where a property depends on rounding, as the
  equality of two computed fitness values does, the fitness model is embedded a second
  time in binary64, every operation rounded to the nearest double; those definitions
  carry the suffix \<open>_f64\<close>. Python \<open>int\<close> is \<^typ>\<open>int\<close>. An exception of the source
  is the left summand of a result type.
\<close>

datatype py_error = ZeroDivisionError | ValueError | IndexError

text \<open>
  Python's \<open>a / b\<close> on floats raises on a zero divisor. (On \<open>numpy\<close> floats it yields
  \<open>inf\<close> or \<open>nan\<close>, which \<^typ>\<open>real\<close> does not have; the model raises there too.)
\<close>

definition py_div :: "real \<Rightarrow> real \<Rightarrow> py_error + real" where
  "py_div a b = (if b = 0 then Inl ZeroDivisionError else Inr (a / b))"

section \<open>parameters.py\<close>

record CostParameters =
  C_travel :: real
  C_signal :: real
  C_opportunity :: real

definition C_total :: "CostParameters \<Rightarrow> real" where
  "C_total c = C_travel c + C_signal c + C_opportunity c"

record VulnerabilityParameters =
  alpha_agg :: real
  beta_ind :: real

record CooperationParameters =
  b_coop :: real
  n_optimal :: int
  c_crowd :: real
  B_recip :: real
  R_ind :: real

text \<open>
  The fields of \<open>EnvironmentParameters\<close> carry the prefix \<open>p_\<close>: \<open>EnvironmentConfig\<close>
  of \<open>environment.py\<close> has fields of the same names. Its three dictionaries are
  association lists.
\<close>

record EnvironmentParameters =
  p_region_size :: real
  p_access_radius :: real
  p_n_aquatic_patches :: int
  p_n_terrestrial_patches :: int
  p_n_mast_patches :: int
  p_n_wetland_patches :: int
  p_base_productivity :: "(string \<times> real) list"
  p_variability :: "(string \<times> real) list"
  p_zone_covariance :: "((string \<times> string) \<times> real) list"

record PopulationParameters =
  n_bands :: int
  initial_band_size :: int
  birth_rate :: real
  death_rate :: real
  min_band_size :: int
  max_band_size :: int

text \<open>
  \<open>environment_p\<close> is the field \<open>environment\<close> of \<open>SimulationParameters\<close>; the
  integrated simulation has a field of that name too.
\<close>

record SimulationParameters =
  costs :: CostParameters
  vulnerability :: VulnerabilityParameters
  cooperation :: CooperationParameters
  environment_p :: EnvironmentParameters
  population :: PopulationParameters
  duration :: int
  burn_in :: int
  seed :: int
  sigma :: real
  epsilon :: real

definition default_costs :: CostParameters where
  "default_costs = \<lparr>C_travel = 12 / 100, C_signal = 18 / 100, C_opportunity = 12 / 100\<rparr>"

definition default_vulnerability :: VulnerabilityParameters where
  "default_vulnerability = \<lparr>alpha_agg = 40 / 100, beta_ind = 75 / 100\<rparr>"

definition default_cooperation :: CooperationParameters where
  "default_cooperation =
     \<lparr>b_coop = 8 / 100, n_optimal = 25, c_crowd = 15 / 1000, B_recip = 5 / 100,
      R_ind = 110 / 100\<rparr>"

definition default_environment :: EnvironmentParameters where
  "default_environment =
     \<lparr>p_region_size = 500, p_access_radius = 50,
      p_n_aquatic_patches = 10, p_n_terrestrial_patches = 12, p_n_mast_patches = 8,
      p_n_wetland_patches = 5,
      p_base_productivity =
        [(''aquatic'', 70 / 100), (''terrestrial'', 60 / 100), (''mast'', 50 / 100),
         (''wetland'', 65 / 100)],
      p_variability =
        [(''aquatic'', 15 / 100), (''terrestrial'', 10 / 100), (''mast'', 30 / 100),
         (''wetland'', 12 / 100)],
      p_zone_covariance =
        [((''aquatic'', ''terrestrial''), - (3 / 10)), ((''aquatic'', ''mast''), 1 / 10),
         ((''terrestrial'', ''mast''), 2 / 10), ((''aquatic'', ''wetland''), 3 / 10),
         ((''terrestrial'', ''wetland''), - (2 / 10)), ((''mast'', ''wetland''), 0)]\<rparr>"

definition default_population :: PopulationParameters where
  "default_population =
     \<lparr>n_bands = 50, initial_band_size = 25, birth_rate = 3 / 100, death_rate = 2 / 100,
      min_band_size = 5, max_band_size = 50\<rparr>"

definition default_parameters :: "real \<Rightarrow> real \<Rightarrow> int \<Rightarrow> SimulationParameters" where
  "default_parameters sg ep sd =
     \<lparr>costs = default_costs, vulnerability = default_vulnerability,
      cooperation = default_cooperation, environment_p = default_environment,
      population = default_population,
      duration = 600, burn_in = 100, seed = sd, sigma = sg, epsilon = ep\<rparr>"

text \<open>\<open>cooperation_benefit(n, params)\<close>: \<open>np.log\<close> is the natural logarithm.\<close>

definition cooperation_benefit :: "real \<Rightarrow> CooperationParameters \<Rightarrow> real" where
  "cooperation_benefit n params =
     (if n \<le> 1 then 1
      else
        let benefit = 1 + b_coop params * ln n;
            benefit = (if n > of_int (n_optimal params)
                       then benefit - c_crowd params * (n - of_int (n_optimal params))\<^sup>2
                       else benefit)
        in max 1 benefit)"

definition W_aggregator :: "real \<Rightarrow> real \<Rightarrow> real \<Rightarrow> SimulationParameters \<Rightarrow> real" where
  "W_aggregator sg ep n params =
     (let sigma_eff = sg * (1 - ep);
          survival = 1 - alpha_agg (vulnerability params) * sigma_eff;
          f_n = cooperation_benefit n (cooperation params);
          recip = 1 + B_recip (cooperation params);
          W = (1 - C_total (costs params)) * survival * f_n * recip
      in max 0 W)"

definition W_independent :: "real \<Rightarrow> SimulationParameters \<Rightarrow> real" where
  "W_independent sg params =
     (let survival = 1 - beta_ind (vulnerability params) * sg
      in max 0 (R_ind (cooperation params) * survival))"

text \<open>The three intermediate quantities of \<open>critical_threshold\<close>, named as in the source.\<close>

definition aggregation_factor :: "real \<Rightarrow> SimulationParameters \<Rightarrow> real" where
  "aggregation_factor n params =
     (1 - C_total (costs params)) * cooperation_benefit n (cooperation params)
       * (1 + B_recip (cooperation params))"

definition alpha_eff :: "real \<Rightarrow> SimulationParameters \<Rightarrow> real" where
  "alpha_eff ep params = alpha_agg (vulnerability params) * (1 - ep)"

definition denom :: "real \<Rightarrow> real \<Rightarrow> SimulationParameters \<Rightarrow> real" where
  "denom ep n params =
     R_ind (cooperation params) * beta_ind (vulnerability params)
       - aggregation_factor n params * alpha_eff ep params"

definition numerator :: "real \<Rightarrow> SimulationParameters \<Rightarrow> real" where
  "numerator n params = R_ind (cooperation params) - aggregation_factor n params"

definition critical_threshold :: "real \<Rightarrow> real \<Rightarrow> SimulationParameters \<Rightarrow> py_error + real" where
  "critical_threshold ep n params =
     (if denom ep n params \<le> 0 then Inr 0
      else if numerator n params \<le> 0 then Inr 0
      else case py_div (numerator n params) (denom ep n params) of
             Inl e \<Rightarrow> Inl e
           | Inr sigma_star \<Rightarrow> Inr (max 0 (min 1 sigma_star)))"

section \<open>The random generator\<close>

text \<open>
  Every stochastic call of the sources goes through one \<open>numpy\<close> generator. The
  embedding separates what the seed fixes from what the calls change: \<open>Draws\<close> is the
  stream the seed determines (the outcome of the \<open>k\<close>-th call, for each kind of call),
  and the generator's state is the number of calls made so far, threaded through every
  function. \<open>normal_at\<close> is a standard normal variate; \<open>binomial_at k n p\<close> is the
  outcome of \<open>binomial(n, p)\<close>; \<open>choice_at k len\<close> is the index \<open>choice\<close> picks in a
  list of length \<open>len\<close>; \<open>integers_at k lo hi\<close> is the outcome of \<open>integers(lo, hi)\<close>.
  \<open>uniform(lo, hi)\<close> is \<open>lo + (hi - lo) * random()\<close>.
\<close>

record Draws =
  random_at :: "nat \<Rightarrow> real"
  normal_at :: "nat \<Rightarrow> real"
  binomial_at :: "nat \<Rightarrow> nat \<Rightarrow> real \<Rightarrow> nat"
  choice_at :: "nat \<Rightarrow> nat \<Rightarrow> nat"
  integers_at :: "nat \<Rightarrow> int \<Rightarrow> int \<Rightarrow> int"

text \<open>The supports of the distributions: what every stream of a real generator satisfies.\<close>

definition valid_draws :: "Draws \<Rightarrow> bool" where
  "valid_draws D \<longleftrightarrow>
     (\<forall>k. 0 \<le> random_at D k \<and> random_at D k < 1)
     \<and> (\<forall>k n p. binomial_at D k n p \<le> n)
     \<and> (\<forall>k len. 0 < len \<longrightarrow> choice_at D k len < len)
     \<and> (\<forall>k lo hi. lo < hi \<longrightarrow> lo \<le> integers_at D k lo hi \<and> integers_at D k lo hi < hi)"

definition rng_random :: "Draws \<Rightarrow> nat \<Rightarrow> real \<times> nat" where
  "rng_random D k = (random_at D k, Suc k)"

definition rng_uniform :: "Draws \<Rightarrow> nat \<Rightarrow> real \<Rightarrow> real \<Rightarrow> real \<times> nat" where
  "rng_uniform D k lo hi = (lo + (hi - lo) * random_at D k, Suc k)"

definition rng_integers :: "Draws \<Rightarrow> nat \<Rightarrow> int \<Rightarrow> int \<Rightarrow> py_error + (int \<times> nat)" where
  "rng_integers D k lo hi =
     (if hi \<le> lo then Inl ValueError else Inr (integers_at D k lo hi, Suc k))"

definition rng_normal :: "Draws \<Rightarrow> nat \<Rightarrow> real \<Rightarrow> real \<Rightarrow> py_error + (real \<times> nat)" where
  "rng_normal D k loc scale =
     (if scale < 0 then Inl ValueError else Inr (loc + scale * normal_at D k, Suc k))"

definition rng_binomial :: "Draws \<Rightarrow> nat \<Rightarrow> int \<Rightarrow> real \<Rightarrow> py_error + (int \<times> nat)" where
  "rng_binomial D k n p =
     (if n < 0 \<or> p < 0 \<or> 1 < p then Inl ValueError
      else Inr (int (binomial_at D k (nat n) p), Suc k))"

definition rng_choice :: "Draws \<Rightarrow> nat \<Rightarrow> 'a list \<Rightarrow> py_error + ('a \<times> nat)" where
  "rng_choice D k xs =
     (if xs = [] then Inl ValueError
      else Inr (xs ! choice_at D k (length xs), Suc k))"

section \<open>numpy and builtin helpers\<close>

definition np_clip :: "real \<Rightarrow> real \<Rightarrow> real \<Rightarrow> real" where
  "np_clip x lo hi = min (max x lo) hi"

definition np_mean :: "real list \<Rightarrow> real" where
  "np_mean xs = sum_list xs / real (length xs)"

text \<open>\<open>int(x)\<close> on a float truncates towards zero.\<close>

definition py_int :: "real \<Rightarrow> int" where
  "py_int x = (if 0 \<le> x then \<lfloor>x\<rfloor> else \<lceil>x\<rceil>)"

text \<open>\<open>xs[-1]\<close> raises on an empty list.\<close>

definition py_last :: "'a list \<Rightarrow> py_error + 'a" where
  "py_last xs = (if xs = [] then Inl IndexError else Inr (last xs))"

text \<open>\<open>round(x)\<close>: to the nearest integer, and to the even one at a tie.\<close>

definition py_round :: "real \<Rightarrow> int" where
  "py_round x =
     (let f = \<lfloor>x\<rfloor>; d = x - of_int f
      in if d < 1 / 2 then f else if 1 / 2 < d then f + 1 else if even f then f else f + 1)"

section \<open>parameters.py in binary64\<close>

text \<open>
  A double is a real with a significand of 53 bits. \<open>fl x\<close> is the double nearest to
  \<open>x\<close>, the one with the even significand at a tie: with \<open>binade x\<close> the exponent of
  \<open>x\<close>, the significand scaled to an integer is rounded. The exponent is not bounded:
  overflow and subnormal numbers are left out, and no value below comes near them.
  Every arithmetic operation of IEEE 754 is the exact operation followed by \<open>fl\<close>, and
  a decimal literal \<open>d\<close> denotes \<open>fl d\<close>.
\<close>

definition binade :: "real \<Rightarrow> int" where
  "binade x = \<lfloor>log 2 \<bar>x\<bar>\<rfloor>"

definition fl :: "real \<Rightarrow> real" where
  "fl x = (if x = 0 then 0
           else of_int (py_round (x * 2 powr of_int (52 - binade x)))
                  * 2 powr of_int (binade x - 52))"

text \<open>
  The fitness model once more, each operation rounded, in the order the source
  evaluates it. \<open>np_log\<close> stands for \<open>np.log\<close>, a library call. The fields of the
  parameter records are taken to hold doubles.
\<close>

definition C_total_f64 :: "CostParameters \<Rightarrow> real" where
  "C_total_f64 c = fl (fl (C_travel c + C_signal c) + C_opportunity c)"

definition cooperation_benefit_f64 :: "(real \<Rightarrow> real) \<Rightarrow> real \<Rightarrow> CooperationParameters \<Rightarrow> real" where
  "cooperation_benefit_f64 np_log n params =
     (if n \<le> 1 then 1
      else
        let benefit = fl (1 + fl (b_coop params * np_log n));
            benefit = (if n > of_int (n_optimal params)
                       then fl (benefit - fl (c_crowd params
                              * fl (fl (n - of_int (n_optimal params))
                                      * fl (n - of_int (n_optimal params)))))
                       else benefit)
        in max 1 benefit)"

definition W_aggregator_f64 ::
  "(real \<Rightarrow> real) \<Rightarrow> real \<Rightarrow> real \<Rightarrow> real \<Rightarrow> SimulationParameters \<Rightarrow> real" where
  "W_aggregator_f64 np_log sg ep n params =
     (let C = C_total_f64 (costs params);
          sigma_eff = fl (sg * fl (1 - ep));
          survival = fl (1 - fl (alpha_agg (vulnerability params) * sigma_eff));
          f_n = cooperation_benefit_f64 np_log n (cooperation params);
          recip = fl (1 + B_recip (cooperation params));
          W = fl (fl (fl (fl (1 - C) * survival) * f_n) * recip)
      in max 0 W)"

definition W_independent_f64 :: "real \<Rightarrow> SimulationParameters \<Rightarrow> real" where
  "W_independent_f64 sg params =
     (let survival = fl (1 - fl (beta_ind (vulnerability params) * sg))
      in max 0 (fl (R_ind (cooperation params) * survival)))"

definition aggregation_factor_f64 :: "(real \<Rightarrow> real) \<Rightarrow> real \<Rightarrow> SimulationParameters \<Rightarrow> real" where
  "aggregation_factor_f64 np_log n params =
     fl (fl (fl (1 - C_total_f64 (costs params))
               * cooperation_benefit_f64 np_log n (cooperation params))
           * fl (1 + B_recip (cooperation params)))"

definition alpha_eff_f64 :: "real \<Rightarrow> SimulationParameters \<Rightarrow> real" where
  "alpha_eff_f64 ep params = fl (alpha_agg (vulnerability params) * fl (1 - ep))"

definition denom_f64 :: "(real \<Rightarrow> real) \<Rightarrow> real \<Rightarrow> real \<Rightarrow> SimulationParameters \<Rightarrow> real" where
  "denom_f64 np_log ep n params =
     fl (fl (R_ind (cooperation params) * beta_ind (vulnerability params))
           - fl (aggregation_factor_f64 np_log n params * alpha_eff_f64 ep params))"

definition numerator_f64 :: "(real \<Rightarrow> real) \<Rightarrow> real \<Rightarrow> SimulationParameters \<Rightarrow> real" where
  "numerator_f64 np_log n params =
     fl (R_ind (cooperation params) - aggregation_factor_f64 np_log n params)"

definition critical_threshold_f64 ::
  "(real \<Rightarrow> real) \<Rightarrow> real \<Rightarrow> real \<Rightarrow> SimulationParameters \<Rightarrow> py_error + real" where
  "critical_threshold_f64 np_log ep n params =
     (if denom_f64 np_log ep n params \<le> 0 then Inr 0
      else if numerator_f64 np_log n params \<le> 0 then Inr 0
      else case py_div (numerator_f64 np_log n params) (denom_f64 np_log ep n params) of
             Inl e \<Rightarrow> Inl e
           | Inr q \<Rightarrow> Inr (max 0 (min 1 (fl q))))"

text \<open>The default parameters as the doubles their literals denote.\<close>

definition default_parameters_f64 :: SimulationParameters where
  "default_parameters_f64 =
     (default_parameters (fl (5 / 10)) (fl (35 / 100)) 42)
       \<lparr>costs := \<lparr>C_travel = fl (12 / 100), C_signal = fl (18 / 100),
                   C_opportunity = fl (12 / 100)\<rparr>,
        vulnerability := \<lparr>alpha_agg = fl (40 / 100), beta_ind = fl (75 / 100)\<rparr>,
        cooperation := \<lparr>b_coop = fl (8 / 100), n_optimal = 25, c_crowd = fl (15 / 1000),
                         B_recip = fl (5 / 100), R_ind = fl (110 / 100)\<rparr>\<rparr>"

text \<open>
  A correctly rounded logarithm, one function that \<open>np.log\<close> may be; for \<open>n \<le> 1\<close> it is
  never called.
\<close>

definition np_log_rounded :: "real \<Rightarrow> real" where
  "np_log_rounded x = fl (ln x)"

section \<open>agents.py\<close>

datatype Strategy = AGGREGATOR | INDEPENDENT

text \<open>
  \<open>size_b\<close> is the field \<open>size\<close> of the source. \<open>obligations\<close> is a \<open>dict\<close>: an
  association list in insertion order, which \<open>list(band.obligations.keys())\<close> exposes.
\<close>

record Band =
  band_id :: int
  size_b :: int
  home_location :: "real \<times> real"
  strategy :: Strategy
  resources :: real
  prestige :: real
  monument_contributions :: real
  exotic_goods :: int
  obligations :: "(int \<times> real) list"
  aggregation_history :: "bool list"
  fitness_history :: "real list"
  strategy_history :: "Strategy list"

definition memory_adjust :: "Band \<Rightarrow> real \<Rightarrow> py_error + real" where
  "memory_adjust b fitness_diff =
     (if length (fitness_history b) \<ge> 5 then
        let recent_fitness = np_mean (drop (length (fitness_history b) - 5) (fitness_history b));
            long_term_fitness = np_mean (fitness_history b)
        in case py_last (aggregation_history b) of
             Inl e \<Rightarrow> Inl e
           | Inr was_agg \<Rightarrow>
               if was_agg then
                 (if recent_fitness > long_term_fitness then Inr (fitness_diff + 5 / 100)
                  else Inr (fitness_diff - 5 / 100))
               else
                 (if recent_fitness > long_term_fitness then Inr (fitness_diff - 5 / 100)
                  else Inr (fitness_diff + 5 / 100))
      else Inr fitness_diff)"

definition decide_strategy ::
  "Draws \<Rightarrow> Band \<Rightarrow> real \<Rightarrow> real \<Rightarrow> real \<Rightarrow> SimulationParameters \<Rightarrow> nat
     \<Rightarrow> py_error + (Strategy \<times> nat)" where
  "decide_strategy D b expected_n sg ep params k =
     (let E_W_agg = W_aggregator sg ep expected_n params;
          E_W_ind = W_independent sg params
      in case memory_adjust b (E_W_agg - E_W_ind) of
           Inl e \<Rightarrow> Inl e
         | Inr fitness_diff \<Rightarrow>
             let temperature = 10;
                 p_aggregate = 1 / (1 + exp (- temperature * fitness_diff));
                 (u, k') = rng_random D k
             in if u < p_aggregate then Inr (AGGREGATOR, k') else Inr (INDEPENDENT, k'))"

definition calculate_travel_cost :: "Band \<Rightarrow> real \<times> real \<Rightarrow> real \<Rightarrow> real" where
  "calculate_travel_cost b destination cost_per_km =
     (let dx = fst destination - fst (home_location b);
          dy = snd destination - snd (home_location b);
          distance = sqrt (dx\<^sup>2 + dy\<^sup>2)
      in distance * cost_per_km)"

text \<open>\<open>invest_in_monument\<close> returns the amount invested, the band and the generator.\<close>

definition invest_in_monument :: "Draws \<Rightarrow> Band \<Rightarrow> real \<Rightarrow> nat \<Rightarrow> real \<times> Band \<times> nat" where
  "invest_in_monument D b investment_rate k =
     (if resources b < 3 / 10 then (0, b, k)
      else
        let base_investment = of_int (size_b b) * investment_rate * resources b;
            (u, k') = rng_random D k;
            investment = base_investment * (8 / 10 + 4 / 10 * u)
        in (investment,
            b\<lparr>monument_contributions := monument_contributions b + investment,
              prestige := prestige b + investment * (1 / 10)\<rparr>,
            k'))"

definition acquire_exotic :: "Draws \<Rightarrow> Band \<Rightarrow> real \<Rightarrow> nat \<Rightarrow> py_error + (bool \<times> Band \<times> nat)" where
  "acquire_exotic D b acquisition_cost k =
     (if resources b < acquisition_cost + 2 / 10 then Inr (False, b, k)
      else case py_div (prestige b) (1 + prestige b) of
             Inl e \<Rightarrow> Inl e
           | Inr q \<Rightarrow>
               let p_acquire = 3 / 10 * (1 + q);
                   (u, k') = rng_random D k
               in if u < p_acquire then
                    Inr (True,
                         b\<lparr>exotic_goods := exotic_goods b + 1,
                           resources := resources b - acquisition_cost,
                           prestige := prestige b + 15 / 100\<rparr>,
                         k')
                  else Inr (False, b, k'))"

definition form_obligation :: "Band \<Rightarrow> int \<Rightarrow> real \<Rightarrow> Band" where
  "form_obligation b partner_id strength =
     (let s = (case map_of (obligations b) partner_id of
                 Some old \<Rightarrow> old + strength
               | None \<Rightarrow> strength)
      in b\<lparr>obligations := AList.update partner_id (min 1 s) (obligations b)\<rparr>)"

text \<open>\<open>call_obligation\<close> returns the help received and the band.\<close>

definition call_obligation :: "Band \<Rightarrow> int \<Rightarrow> real \<Rightarrow> real \<times> Band" where
  "call_obligation b partner_id need =
     (case map_of (obligations b) partner_id of
        None \<Rightarrow> (0, b)
      | Some strength \<Rightarrow>
          let help_received = min need (strength * (5 / 10));
              weakened = strength * (7 / 10)
          in (help_received,
              b\<lparr>obligations :=
                  (if weakened < 5 / 100 then AList.delete partner_id (obligations b)
                   else AList.update partner_id weakened (obligations b))\<rparr>))"

definition reproduce :: "Draws \<Rightarrow> Band \<Rightarrow> real \<Rightarrow> real \<Rightarrow> real \<Rightarrow> nat \<Rightarrow> py_error + (Band \<times> nat)" where
  "reproduce D b fitness br dr k =
     (let effective_birth_rate = br * fitness * (5 / 10 + resources b)
      in case rng_binomial D k (size_b b) effective_birth_rate of
           Inl e \<Rightarrow> Inl e
         | Inr (births, k') \<Rightarrow>
             (case rng_binomial D k' (size_b b) dr of
                Inl e \<Rightarrow> Inl e
              | Inr (deaths, k'') \<Rightarrow>
                  Inr (b\<lparr>size_b := max 1 (size_b b + births - deaths)\<rparr>, k'')))"

text \<open>\<open>suffer_shortfall\<close> returns the number of deaths, the band and the generator.\<close>

definition suffer_shortfall ::
  "Draws \<Rightarrow> Band \<Rightarrow> real \<Rightarrow> real \<Rightarrow> nat \<Rightarrow> py_error + (int \<times> Band \<times> nat)" where
  "suffer_shortfall D b vuln sg k =
     (let mortality_rate = vuln * sg
      in case rng_binomial D k (size_b b) mortality_rate of
           Inl e \<Rightarrow> Inl e
         | Inr (deaths, k') \<Rightarrow> Inr (deaths, b\<lparr>size_b := max 1 (size_b b - deaths)\<rparr>, k'))"

record AggregationSite =
  site_id :: int
  name :: string
  location :: "real \<times> real"
  ecotone_advantage :: real
  monument_level :: real
  monument_history :: "real list"
  attending_bands :: "int list"
  current_population :: int
  total_exotics :: int
  exotic_sources :: "(string \<times> int) list"

definition add_attending_band :: "AggregationSite \<Rightarrow> Band \<Rightarrow> AggregationSite" where
  "add_attending_band site b =
     (if band_id b \<notin> set (attending_bands site) then
        site\<lparr>attending_bands := attending_bands site @ [band_id b],
             current_population := current_population site + size_b b,
             total_exotics := total_exotics site + exotic_goods b\<rparr>
      else site)"

definition record_construction :: "AggregationSite \<Rightarrow> real \<Rightarrow> AggregationSite" where
  "record_construction site investment =
     site\<lparr>monument_level := monument_level site + investment,
          monument_history := monument_history site @ [monument_level site + investment]\<rparr>"

definition reset_annual_state :: "AggregationSite \<Rightarrow> AggregationSite" where
  "reset_annual_state site = site\<lparr>attending_bands := [], current_population := 0\<rparr>"

definition n_attending :: "AggregationSite \<Rightarrow> int" where
  "n_attending site = int (length (attending_bands site))"

text \<open>
  \<open>create_bands\<close>: the loop \<open>for i in range(n_bands)\<close>, from band \<open>i\<close> on, with \<open>n\<close>
  bands still to create.
\<close>

fun create_bands_from :: "Draws \<Rightarrow> int \<Rightarrow> nat \<Rightarrow> int \<Rightarrow> real \<Rightarrow> nat \<Rightarrow> py_error + (Band list \<times> nat)" where
  "create_bands_from D i 0 initial_size rsize k = Inr ([], k)"
| "create_bands_from D i (Suc n) initial_size rsize k =
     (let (x, k1) = rng_uniform D k 0 rsize;
          (y, k2) = rng_uniform D k1 0 rsize;
          (u, k3) = rng_random D k2;
          st = (if u < 4 / 10 then AGGREGATOR else INDEPENDENT)
      in case rng_integers D k3 (- 5) 6 of
           Inl e \<Rightarrow> Inl e
         | Inr (d, k4) \<Rightarrow>
             let (r, k5) = rng_random D k4;
                 band = \<lparr>band_id = i, size_b = initial_size + d, home_location = (x, y),
                         strategy = st, resources = 4 / 10 + 2 / 10 * r,
                         prestige = 0, monument_contributions = 0, exotic_goods = 0,
                         obligations = [], aggregation_history = [], fitness_history = [],
                         strategy_history = []\<rparr>
             in case create_bands_from D (i + 1) n initial_size rsize k5 of
                  Inl e \<Rightarrow> Inl e
                | Inr (bs, k') \<Rightarrow> Inr (band # bs, k'))"

definition create_bands :: "Draws \<Rightarrow> int \<Rightarrow> int \<Rightarrow> real \<Rightarrow> nat \<Rightarrow> py_error + (Band list \<times> nat)" where
  "create_bands D n initial_size rsize k = create_bands_from D 0 (nat n) initial_size rsize k"

definition create_aggregation_site :: "real \<times> real \<Rightarrow> real \<Rightarrow> string \<Rightarrow> AggregationSite" where
  "create_aggregation_site loc ep nm =
     \<lparr>site_id = 0, name = nm, location = loc, ecotone_advantage = ep, monument_level = 0,
      monument_history = [], attending_bands = [], current_population = 0,
      total_exotics = 0, exotic_sources = []\<rparr>"

section \<open>core\_simulation.py\<close>

text \<open>
  The fields of \<open>YearlyState\<close> carry the prefix \<open>ys_\<close>, since several of them share
  their names with fields of the simulation and of the site.
\<close>

record YearlyState =
  ys_year :: int
  ys_total_population :: int
  ys_n_bands :: int
  ys_mean_band_size :: real
  ys_n_aggregators :: int
  ys_n_independents :: int
  ys_strategy_dominance :: real
  ys_aggregation_size :: int
  ys_aggregation_population :: int
  ys_monument_level :: real
  ys_annual_construction :: real
  ys_total_exotics :: int
  ys_sigma_effective :: real
  ys_in_shortfall :: bool
  ys_shortfall_magnitude :: real
  ys_mean_fitness_aggregators :: real
  ys_mean_fitness_independents :: real

text \<open>
  \<open>PovertyPointSimulation\<close>: \<open>rng\<close> is the number of calls made on the generator,
  \<open>yearly_states\<close> is \<open>results.yearly_states\<close>.
\<close>

record PovertyPointSimulation =
  params :: SimulationParameters
  rng :: nat
  bands :: "Band list"
  aggregation_site :: AggregationSite
  year :: int
  in_shortfall :: bool
  shortfall_remaining :: int
  shortfall_magnitude :: real
  yearly_states :: "YearlyState list"

text \<open>\<open>PovertyPointSimulation.__init__\<close>, on a generator that has made no call yet.\<close>

definition init :: "Draws \<Rightarrow> SimulationParameters \<Rightarrow> py_error + PovertyPointSimulation" where
  "init D p =
     (case create_bands D (n_bands (population p)) (initial_band_size (population p))
             (p_region_size (environment_p p)) 0 of
        Inl e \<Rightarrow> Inl e
      | Inr (bs, k) \<Rightarrow>
          let center = p_region_size (environment_p p) / 2
          in Inr \<lparr>params = p, rng = k, bands = bs,
                  aggregation_site =
                    create_aggregation_site (center, center) (epsilon p) ''Poverty Point'',
                  year = 0, in_shortfall = False, shortfall_remaining = 0,
                  shortfall_magnitude = 0, yearly_states = []\<rparr>)"

text \<open>The duration of a new shortfall, as both simulations compute it.\<close>

definition shortfall_duration :: "real \<Rightarrow> real \<Rightarrow> int" where
  "shortfall_duration magnitude duration_scale = max 1 (py_int (1 + magnitude * duration_scale))"

definition generate_shortfall ::
  "Draws \<Rightarrow> SimulationParameters \<Rightarrow> nat \<Rightarrow> py_error + ((bool \<times> real \<times> int) \<times> nat)" where
  "generate_shortfall D p k =
     (let sg = sigma p;
          mean_interval = 20 * (1 - sg) + 5
      in case py_div 1 mean_interval of
           Inl e \<Rightarrow> Inl e
         | Inr p_shortfall \<Rightarrow>
             let (u, k1) = rng_random D k
             in if u < p_shortfall then
                  (case rng_normal D k1 0 (1 / 10) of
                     Inl e \<Rightarrow> Inl e
                   | Inr (z, k2) \<Rightarrow>
                       let magnitude = 3 / 10 + 5 / 10 * sg + z;
                           magnitude = np_clip magnitude (2 / 10) (9 / 10);
                           duration = shortfall_duration magnitude (25 / 10)
                       in Inr ((True, magnitude, duration), k2))
                else Inr ((False, 0, 0), k1))"

text \<open>
  A loop \<open>for band in self.bands\<close> whose body changes the band and the state it shares
  with the other iterations; an exception in the body leaves the loop.
\<close>

fun for_bands ::
  "('s \<Rightarrow> Band \<Rightarrow> py_error + ('s \<times> Band)) \<Rightarrow> 's \<Rightarrow> Band list \<Rightarrow> py_error + ('s \<times> Band list)" where
  "for_bands f s [] = Inr (s, [])"
| "for_bands f s (b # bs) =
     (case f s b of
        Inl e \<Rightarrow> Inl e
      | Inr (s', b') \<Rightarrow>
          (case for_bands f s' bs of
             Inl e \<Rightarrow> Inl e
           | Inr (s'', bs') \<Rightarrow> Inr (s'', b' # bs')))"

text \<open>The body of \<open>_run_dispersal_season\<close>; the shared state is the generator.\<close>

definition dispersal_band ::
  "Draws \<Rightarrow> SimulationParameters \<Rightarrow> bool \<Rightarrow> real \<Rightarrow> nat \<Rightarrow> Band \<Rightarrow> py_error + (nat \<times> Band)" where
  "dispersal_band D p shortfall magnitude k b =
     (let (u, k') = rng_random D k;
          base_harvest = 4 / 10 + 2 / 10 * u;
          base_harvest = (if shortfall then base_harvest * (1 - magnitude) else base_harvest);
          harvest = (if strategy b = AGGREGATOR
                     then base_harvest * (1 - C_opportunity (costs p))
                     else base_harvest);
          consumption = of_int (size_b b) * (2 / 100)
      in Inr (k', b\<lparr>resources := np_clip (resources b + harvest - consumption) 0 1\<rparr>))"

definition run_dispersal_season :: "Draws \<Rightarrow> PovertyPointSimulation \<Rightarrow> py_error + PovertyPointSimulation" where
  "run_dispersal_season D s =
     (case for_bands (dispersal_band D (params s) (in_shortfall s) (shortfall_magnitude s))
             (rng s) (bands s) of
        Inl e \<Rightarrow> Inl e
      | Inr (k, bs) \<Rightarrow> Inr (s\<lparr>rng := k, bands := bs\<rparr>))"

text \<open>The body of \<open>_run_strategy_decisions\<close>.\<close>

definition decision_band ::
  "Draws \<Rightarrow> SimulationParameters \<Rightarrow> real \<Rightarrow> nat \<Rightarrow> Band \<Rightarrow> py_error + (nat \<times> Band)" where
  "decision_band D p expected_n k b =
     (case decide_strategy D b expected_n (sigma p) (epsilon p) p k of
        Inl e \<Rightarrow> Inl e
      | Inr (st, k') \<Rightarrow>
          Inr (k', b\<lparr>strategy := st, strategy_history := strategy_history b @ [st]\<rparr>))"

definition run_strategy_decisions ::
  "Draws \<Rightarrow> PovertyPointSimulation \<Rightarrow> py_error + PovertyPointSimulation" where
  "run_strategy_decisions D s =
     (let last_n = n_attending (aggregation_site s);
          expected_n = max 5 last_n
      in case for_bands (decision_band D (params s) (of_int expected_n)) (rng s) (bands s) of
           Inl e \<Rightarrow> Inl e
         | Inr (k, bs) \<Rightarrow> Inr (s\<lparr>rng := k, bands := bs\<rparr>))"

text \<open>
  The body of \<open>_run_aggregation_season\<close>; the shared state is the site, the generator
  and \<open>total_construction\<close>.
\<close>

definition maybe_form_obligation ::
  "Draws \<Rightarrow> AggregationSite \<Rightarrow> nat \<Rightarrow> Band \<Rightarrow> py_error + (nat \<times> Band)" where
  "maybe_form_obligation D site k b =
     (if length (attending_bands site) > 1 then
        let potential_partners = filter (\<lambda>b_id. b_id \<noteq> band_id b) (attending_bands site)
        in if potential_partners \<noteq> [] then
             let (u, k1) = rng_random D k
             in if u < 3 / 10 then
                  (case rng_choice D k1 potential_partners of
                     Inl e \<Rightarrow> Inl e
                   | Inr (partner_id, k2) \<Rightarrow> Inr (k2, form_obligation b partner_id (1 / 10)))
                else Inr (k1, b)
           else Inr (k, b)
      else Inr (k, b))"

definition aggregation_band ::
  "Draws \<Rightarrow> SimulationParameters \<Rightarrow> bool \<Rightarrow> real \<Rightarrow> AggregationSite \<times> nat \<times> real \<Rightarrow> Band
     \<Rightarrow> py_error + ((AggregationSite \<times> nat \<times> real) \<times> Band)" where
  "aggregation_band D p shortfall magnitude st b =
     (case st of (site, k, total_construction) \<Rightarrow>
        if strategy b = AGGREGATOR then
          let travel_cost = calculate_travel_cost b (location site) (5 / 10000);
              b1 = b\<lparr>resources := resources b - min travel_cost (resources b * (5 / 10))\<rparr>;
              site1 = add_attending_band site b1;
              b2 = b1\<lparr>aggregation_history := aggregation_history b1 @ [True]\<rparr>;
              (investment, b3, k1) = invest_in_monument D b2 (C_signal (costs p)) k
          in case acquire_exotic D b3 (1 / 10) k1 of
               Inl e \<Rightarrow> Inl e
             | Inr (acquired, b4, k2) \<Rightarrow>
                 (case maybe_form_obligation D site1 k2 b4 of
                    Inl e \<Rightarrow> Inl e
                  | Inr (k3, b5) \<Rightarrow> Inr ((site1, k3, total_construction + investment), b5))
        else
          let extra_harvest = 1 / 10 * (if shortfall then 1 - magnitude else 1);
              b1 = b\<lparr>resources := min 1 (resources b + extra_harvest)\<rparr>
          in Inr ((site, k, total_construction),
                  b1\<lparr>aggregation_history := aggregation_history b1 @ [False]\<rparr>))"

definition run_aggregation_season ::
  "Draws \<Rightarrow> PovertyPointSimulation \<Rightarrow> py_error + PovertyPointSimulation" where
  "run_aggregation_season D s =
     (case for_bands (aggregation_band D (params s) (in_shortfall s) (shortfall_magnitude s))
             (reset_annual_state (aggregation_site s), rng s, 0) (bands s) of
        Inl e \<Rightarrow> Inl e
      | Inr ((site, k, total_construction), bs) \<Rightarrow>
          Inr (s\<lparr>rng := k, bands := bs,
                 aggregation_site := record_construction site total_construction\<rparr>))"

text \<open>The body of \<open>_apply_shortfall_mortality\<close>.\<close>

definition mortality_band ::
  "Draws \<Rightarrow> SimulationParameters \<Rightarrow> nat \<Rightarrow> Band \<Rightarrow> py_error + (nat \<times> Band)" where
  "mortality_band D p k b =
     (let (sigma_eff, vuln) =
            (if strategy b = AGGREGATOR
             then (sigma p * (1 - epsilon p), alpha_agg (vulnerability p))
             else (sigma p, beta_ind (vulnerability p)))
      in case suffer_shortfall D b vuln sigma_eff k of
           Inl e \<Rightarrow> Inl e
         | Inr (deaths, b1, k1) \<Rightarrow>
             if strategy b1 = AGGREGATOR \<and> obligations b1 \<noteq> [] then
               (case rng_choice D k1 (map fst (obligations b1)) of
                  Inl e \<Rightarrow> Inl e
                | Inr (partner_id, k2) \<Rightarrow>
                    let (help_received, b2) = call_obligation b1 partner_id (2 / 10)
                    in Inr (k2, b2\<lparr>resources := resources b2 + help_received\<rparr>))
             else Inr (k1, b1))"

definition apply_shortfall_mortality ::
  "Draws \<Rightarrow> PovertyPointSimulation \<Rightarrow> py_error + PovertyPointSimulation" where
  "apply_shortfall_mortality D s =
     (if \<not> in_shortfall s then Inr s
      else case for_bands (mortality_band D (params s)) (rng s) (bands s) of
             Inl e \<Rightarrow> Inl e
           | Inr (k, bs) \<Rightarrow> Inr (s\<lparr>rng := k, bands := bs\<rparr>))"

text \<open>The body of \<open>_apply_reproduction\<close>.\<close>

definition reproduction_band ::
  "Draws \<Rightarrow> SimulationParameters \<Rightarrow> AggregationSite \<Rightarrow> nat \<Rightarrow> Band \<Rightarrow> py_error + (nat \<times> Band)" where
  "reproduction_band D p site k b =
     (let fitness = (if aggregation_history b \<noteq> [] \<and> last (aggregation_history b)
                     then W_aggregator (sigma p) (epsilon p) (of_int (n_attending site)) p
                     else W_independent (sigma p) p);
          b1 = b\<lparr>fitness_history := fitness_history b @ [fitness]\<rparr>
      in case reproduce D b1 fitness (birth_rate (population p)) (death_rate (population p)) k of
           Inl e \<Rightarrow> Inl e
         | Inr (b2, k') \<Rightarrow>
             Inr (k',
                  if size_b b2 < min_band_size (population p)
                  then b2\<lparr>size_b := min_band_size (population p)\<rparr>
                  else if size_b b2 > max_band_size (population p)
                  then b2\<lparr>size_b := max_band_size (population p)\<rparr>
                  else b2))"

definition apply_reproduction ::
  "Draws \<Rightarrow> PovertyPointSimulation \<Rightarrow> py_error + PovertyPointSimulation" where
  "apply_reproduction D s =
     (case for_bands (reproduction_band D (params s) (aggregation_site s)) (rng s) (bands s) of
        Inl e \<Rightarrow> Inl e
      | Inr (k, bs) \<Rightarrow> Inr (s\<lparr>rng := k, bands := bs\<rparr>))"

text \<open>
  \<open>_record_state\<close>. On an empty list \<open>np.mean\<close> yields \<open>nan\<close>, which \<^typ>\<open>real\<close> does
  not have; \<^const>\<open>np_mean\<close> yields 0 there, and nothing below depends on that value.
\<close>

definition record_state :: "PovertyPointSimulation \<Rightarrow> YearlyState \<times> PovertyPointSimulation" where
  "record_state s =
     (let n_agg = int (length (filter (\<lambda>b. strategy b = AGGREGATOR) (bands s)));
          n_ind = int (length (bands s)) - n_agg;
          n_total = int (length (bands s));
          dominance = (if n_total > 0 then of_int (n_agg - n_ind) / of_int n_total else 0);
          agg_fitness = map (\<lambda>b. last (fitness_history b))
                          (filter (\<lambda>b. strategy b = AGGREGATOR \<and> fitness_history b \<noteq> []) (bands s));
          ind_fitness = map (\<lambda>b. last (fitness_history b))
                          (filter (\<lambda>b. strategy b = INDEPENDENT \<and> fitness_history b \<noteq> []) (bands s));
          site = aggregation_site s;
          mh = monument_history site;
          state =
            \<lparr>ys_year = year s,
             ys_total_population = sum_list (map size_b (bands s)),
             ys_n_bands = int (length (bands s)),
             ys_mean_band_size = np_mean (map (\<lambda>b. of_int (size_b b)) (bands s)),
             ys_n_aggregators = n_agg,
             ys_n_independents = n_ind,
             ys_strategy_dominance = dominance,
             ys_aggregation_size = n_attending site,
             ys_aggregation_population = current_population site,
             ys_monument_level = monument_level site,
             ys_annual_construction =
               (if length mh > 1 then last mh - last (butlast mh) else monument_level site),
             ys_total_exotics = sum_list (map exotic_goods (bands s)),
             ys_sigma_effective = sigma (params s) * (1 - epsilon (params s)),
             ys_in_shortfall = in_shortfall s,
             ys_shortfall_magnitude = shortfall_magnitude s,
             ys_mean_fitness_aggregators = (if agg_fitness \<noteq> [] then np_mean agg_fitness else 0),
             ys_mean_fitness_independents = (if ind_fitness \<noteq> [] then np_mean ind_fitness else 0)\<rparr>
      in (state, s\<lparr>yearly_states := yearly_states s @ [state]\<rparr>))"

text \<open>The first part of \<open>step\<close>: shortfall determination.\<close>

definition shortfall_determination ::
  "Draws \<Rightarrow> PovertyPointSimulation \<Rightarrow> py_error + PovertyPointSimulation" where
  "shortfall_determination D s =
     (if shortfall_remaining s > 0 then
        let s1 = s\<lparr>shortfall_remaining := shortfall_remaining s - 1\<rparr>
        in if shortfall_remaining s1 = 0
           then Inr (s1\<lparr>in_shortfall := False, shortfall_magnitude := 0\<rparr>)
           else Inr s1
      else case generate_shortfall D (params s) (rng s) of
             Inl e \<Rightarrow> Inl e
           | Inr ((new_shortfall, magnitude, dur), k) \<Rightarrow>
               if new_shortfall
               then Inr (s\<lparr>rng := k, in_shortfall := True, shortfall_magnitude := magnitude,
                           shortfall_remaining := dur\<rparr>)
               else Inr (s\<lparr>rng := k\<rparr>))"

definition bind_err :: "py_error + 'a \<Rightarrow> ('a \<Rightarrow> py_error + 'b) \<Rightarrow> py_error + 'b" where
  "bind_err m f = (case m of Inl e \<Rightarrow> Inl e | Inr x \<Rightarrow> f x)"

definition step :: "Draws \<Rightarrow> PovertyPointSimulation \<Rightarrow> py_error + (YearlyState \<times> PovertyPointSimulation)" where
  "step D s =
     bind_err (shortfall_determination D s) (\<lambda>s1.
     bind_err (run_dispersal_season D s1) (\<lambda>s2.
     bind_err (run_strategy_decisions D s2) (\<lambda>s3.
     bind_err (run_aggregation_season D s3) (\<lambda>s4.
     bind_err (apply_shortfall_mortality D s4) (\<lambda>s5.
     bind_err (apply_reproduction D s5) (\<lambda>s6.
       let (state, s7) = record_state s6
       in Inr (state, s7\<lparr>year := year s7 + 1\<rparr>)))))))"

text \<open>
  The loop of \<open>run\<close>: \<open>n\<close> calls of \<open>step\<close>. The summary statistics \<open>run\<close> computes
  afterwards read the recorded states and change none of them.
\<close>

fun run_years :: "Draws \<Rightarrow> nat \<Rightarrow> PovertyPointSimulation \<Rightarrow> py_error + PovertyPointSimulation" where
  "run_years D 0 s = Inr s"
| "run_years D (Suc n) s =
     (case step D s of
        Inl e \<Rightarrow> Inl e
      | Inr (state, s') \<Rightarrow> run_years D n s')"

definition run :: "Draws \<Rightarrow> PovertyPointSimulation \<Rightarrow> py_error + PovertyPointSimulation" where
  "run D s = run_years D (nat (duration (params s))) s"

section \<open>environment.py\<close>

datatype ResourceZone = AQUATIC | TERRESTRIAL | MAST | ECOTONE

record SeasonalProfile =
  spring :: real
  summer :: real
  fall :: real
  winter :: real

definition get_multiplier :: "SeasonalProfile \<Rightarrow> int \<Rightarrow> real" where
  "get_multiplier prof month =
     (if month \<in> {3, 4, 5} then spring prof
      else if month \<in> {6, 7, 8} then summer prof
      else if month \<in> {9, 10, 11} then fall prof
      else winter prof)"

fun SEASONAL_PROFILES :: "ResourceZone \<Rightarrow> SeasonalProfile" where
  "SEASONAL_PROFILES AQUATIC = \<lparr>spring = 15 / 10, summer = 13 / 10, fall = 8 / 10, winter = 5 / 10\<rparr>"
| "SEASONAL_PROFILES TERRESTRIAL = \<lparr>spring = 7 / 10, summer = 8 / 10, fall = 14 / 10, winter = 11 / 10\<rparr>"
| "SEASONAL_PROFILES MAST = \<lparr>spring = 0, summer = 1 / 10, fall = 2, winter = 5 / 10\<rparr>"
| "SEASONAL_PROFILES ECOTONE = \<lparr>spring = 1, summer = 1, fall = 12 / 10, winter = 8 / 10\<rparr>"

text \<open>\<open>patch_location\<close> is the field \<open>location\<close> of \<open>EcologicalPatch\<close>.\<close>

record EcologicalPatch =
  patch_id :: int
  zone_type :: ResourceZone
  patch_location :: "real \<times> real"
  base_productivity :: real
  variability :: real
  current_productivity :: real
  annual_shock :: real

text \<open>\<open>get_seasonal_productivity\<close> stores the value it returns in the patch.\<close>

definition get_seasonal_productivity :: "EcologicalPatch \<Rightarrow> int \<Rightarrow> real \<times> EcologicalPatch" where
  "get_seasonal_productivity pt month =
     (let seasonal_mult = get_multiplier (SEASONAL_PROFILES (zone_type pt)) month;
          v = max 0 (base_productivity pt * seasonal_mult + annual_shock pt)
      in (v, pt\<lparr>current_productivity := v\<rparr>))"

record EnvironmentConfig =
  region_size :: real
  n_aquatic_patches :: int
  n_terrestrial_patches :: int
  n_mast_patches :: int
  n_ecotone_patches :: int
  aquatic_base_productivity :: real
  terrestrial_base_productivity :: real
  mast_base_productivity :: real
  ecotone_base_productivity :: real
  aquatic_variability :: real
  terrestrial_variability :: real
  mast_variability :: real
  ecotone_variability :: real
  aquatic_terrestrial_cov :: real
  aquatic_mast_cov :: real
  terrestrial_mast_cov :: real

definition default_config :: EnvironmentConfig where
  "default_config =
     \<lparr>region_size = 500, n_aquatic_patches = 10, n_terrestrial_patches = 12,
      n_mast_patches = 8, n_ecotone_patches = 5,
      aquatic_base_productivity = 7 / 10, terrestrial_base_productivity = 6 / 10,
      mast_base_productivity = 5 / 10, ecotone_base_productivity = 65 / 100,
      aquatic_variability = 15 / 100, terrestrial_variability = 10 / 100,
      mast_variability = 30 / 100, ecotone_variability = 12 / 100,
      aquatic_terrestrial_cov = - (3 / 10), aquatic_mast_cov = 1 / 10,
      terrestrial_mast_cov = 2 / 10\<rparr>"

text \<open>
  An \<open>n \<times> n\<close> array is its entries at the indices below \<open>n\<close>; \<open>np.eye(n)\<close> is the
  identity, and \<open>cov[i, j] = v\<close> updates one entry.
\<close>

type_synonym ndarray = "nat \<Rightarrow> nat \<Rightarrow> real"

definition np_eye :: ndarray where
  "np_eye = (\<lambda>i j. if i = j then 1 else 0)"

definition set_entry :: "ndarray \<Rightarrow> nat \<Rightarrow> nat \<Rightarrow> real \<Rightarrow> ndarray" where
  "set_entry M i j v = M(i := (M i)(j := v))"

text \<open>
  The body of the two nested loops of \<open>_build_covariance_matrix\<close>, at the pair
  \<open>(i, j)\<close>; \<open>pair_covariance\<close> is the value it computes for the two patches.
\<close>

definition pair_covariance :: "EnvironmentConfig \<Rightarrow> EcologicalPatch \<Rightarrow> EcologicalPatch \<Rightarrow> real" where
  "pair_covariance cfg patch_i patch_j =
     (let zones = {zone_type patch_i, zone_type patch_j};
          cov_val =
            (if zones = {AQUATIC, TERRESTRIAL} then aquatic_terrestrial_cov cfg
             else if zones = {AQUATIC, MAST} then aquatic_mast_cov cfg
             else if zones = {TERRESTRIAL, MAST} then terrestrial_mast_cov cfg
             else if zone_type patch_i = zone_type patch_j then 5 / 10
             else 1 / 10);
          var_i = (variability patch_i)\<^sup>2;
          var_j = (variability patch_j)\<^sup>2
      in cov_val * sqrt (var_i * var_j))"

definition covariance_body :: "EnvironmentConfig \<Rightarrow> EcologicalPatch list \<Rightarrow> nat \<times> nat \<Rightarrow> ndarray \<Rightarrow> ndarray" where
  "covariance_body cfg pts ij cov =
     (case ij of (i, j) \<Rightarrow>
        if i \<ge> j then cov
        else
          let v = pair_covariance cfg (pts ! i) (pts ! j)
          in set_entry (set_entry cov i j v) j i v)"

definition covariance_loops :: "EnvironmentConfig \<Rightarrow> EcologicalPatch list \<Rightarrow> ndarray" where
  "covariance_loops cfg pts =
     fold (covariance_body cfg pts)
       (List.product [0..<length pts] [0..<length pts]) np_eye"

text \<open>
  \<open>_build_covariance_matrix\<close>. \<open>np.linalg.eigvalsh(cov).min()\<close> is a library call:
  \<open>eig_min n cov\<close> stands for its result on the \<open>n \<times> n\<close> array \<open>cov\<close>. On an empty
  array \<open>min\<close> raises.
\<close>

definition build_covariance_matrix ::
  "(nat \<Rightarrow> ndarray \<Rightarrow> real) \<Rightarrow> EnvironmentConfig \<Rightarrow> EcologicalPatch list \<Rightarrow> py_error + ndarray" where
  "build_covariance_matrix eig_min cfg pts =
     (let n = length pts;
          cov = covariance_loops cfg pts
      in if n = 0 then Inl ValueError
         else if eig_min n cov < 0
         then Inr (\<lambda>i j. cov i j + np_eye i j * (\<bar>eig_min n cov\<bar> + 1 / 100))
         else Inr cov)"

text \<open>\<open>lam\<close> is an eigenvalue of the \<open>n \<times> n\<close> array \<open>M\<close>.\<close>

definition eigenvalue :: "nat \<Rightarrow> ndarray \<Rightarrow> real \<Rightarrow> bool" where
  "eigenvalue n M lam \<longleftrightarrow>
     (\<exists>v. (\<exists>i<n. v i \<noteq> 0) \<and> (\<forall>i<n. (\<Sum>j<n. M i j * v j) = lam * v i))"

record Environment =
  config :: EnvironmentConfig
  env_rng :: nat
  env_year :: int
  env_month :: int
  patches :: "EcologicalPatch list"
  cov_matrix :: ndarray

text \<open>
  \<open>get_zone_productivity\<close>: the mean over the patches of the zone, each of which
  records the value computed for it.
\<close>

definition get_zone_productivity :: "Environment \<Rightarrow> ResourceZone \<Rightarrow> real \<times> Environment" where
  "get_zone_productivity env zone =
     (let zone_patches = filter (\<lambda>pt. zone_type pt = zone) (patches env)
      in if zone_patches = [] then (0, env)
         else
           (np_mean (map (\<lambda>pt. fst (get_seasonal_productivity pt (env_month env))) zone_patches),
            env\<lparr>patches :=
                  map (\<lambda>pt. if zone_type pt = zone
                            then snd (get_seasonal_productivity pt (env_month env)) else pt)
                    (patches env)\<rparr>))"

section \<open>environmental\_scenarios.py and integrated\_simulation.py\<close>

record ShortfallParams =
  mean_interval :: real
  magnitude_mean :: real
  magnitude_std :: real
  duration_scale :: real

definition default_shortfall_params :: ShortfallParams where
  "default_shortfall_params =
     \<lparr>mean_interval = 10, magnitude_mean = 5 / 10, magnitude_std = 15 / 100,
      duration_scale = 25 / 10\<rparr>"

text \<open>
  \<open>IntegratedSimulation\<close>, with the prefix \<open>i_\<close> on the fields whose names the core
  simulation has too.
\<close>

record IntegratedSimulation =
  i_params :: SimulationParameters
  shortfall_params :: ShortfallParams
  i_rng :: nat
  environment :: Environment
  i_bands :: "Band list"
  i_aggregation_site :: AggregationSite
  i_year :: int
  i_month :: int
  annual_productivities :: "real list"
  effective_sigma :: real
  i_in_shortfall :: bool
  shortfall_severity :: real
  i_shortfall_remaining :: int

text \<open>The loop \<open>for zone in ResourceZone\<close> at the head of \<open>_evaluate_shortfall\<close>.\<close>

fun zone_mean_loop :: "ResourceZone list \<Rightarrow> Environment \<Rightarrow> real \<Rightarrow> int \<Rightarrow> real \<times> int \<times> Environment" where
  "zone_mean_loop [] env mean_prod n_zones = (mean_prod, n_zones, env)"
| "zone_mean_loop (zone # zs) env mean_prod n_zones =
     (let (zone_prod, env') = get_zone_productivity env zone
      in if zone_prod > 0 then zone_mean_loop zs env' (mean_prod + zone_prod) (n_zones + 1)
         else zone_mean_loop zs env' mean_prod n_zones)"

definition evaluate_shortfall ::
  "Draws \<Rightarrow> IntegratedSimulation \<Rightarrow> py_error + ((bool \<times> real) \<times> IntegratedSimulation)" where
  "evaluate_shortfall D s =
     (let (mean_prod, n_zones, env') =
            zone_mean_loop [AQUATIC, TERRESTRIAL, MAST, ECOTONE] (environment s) 0 0;
          mean_prod = (if n_zones > 0 then mean_prod / of_int n_zones else mean_prod);
          s1 = s\<lparr>environment := env',
                 annual_productivities := annual_productivities s @ [mean_prod]\<rparr>
      in if i_shortfall_remaining s1 > 0 then
           Inr ((True, shortfall_severity s1),
                s1\<lparr>i_shortfall_remaining := i_shortfall_remaining s1 - 1\<rparr>)
         else
           case py_div 1 (mean_interval (shortfall_params s1)) of
             Inl e \<Rightarrow> Inl e
           | Inr p_shortfall \<Rightarrow>
               let (u, k1) = rng_random D (i_rng s1)
               in if u < p_shortfall then
                    (case rng_normal D k1 0 (magnitude_std (shortfall_params s1)) of
                       Inl e \<Rightarrow> Inl e
                     | Inr (z, k2) \<Rightarrow>
                         let magnitude = magnitude_mean (shortfall_params s1) + z;
                             magnitude = np_clip magnitude (1 / 10) (9 / 10);
                             dur = shortfall_duration magnitude
                                     (duration_scale (shortfall_params s1))
                         in Inr ((True, magnitude),
                                 s1\<lparr>i_rng := k2, i_shortfall_remaining := dur - 1\<rparr>))
                  else Inr ((False, 0), s1\<lparr>i_rng := k1\<rparr>))"

text \<open>The formula of the specification for the duration, with Python's \<open>round\<close>.\<close>

definition spec_shortfall_duration :: "real \<Rightarrow> real \<Rightarrow> int" where
  "spec_shortfall_duration magnitude scale = max 1 (py_round (1 + magnitude * scale))"

section \<open>Concrete inputs\<close>

text \<open>A stream whose every uniform draw is \<open>1/2\<close>, with no deaths, no births and first choices.\<close>

definition half_draws :: Draws where
  "half_draws =
     \<lparr>random_at = (\<lambda>k. 1 / 2), normal_at = (\<lambda>k. 0), binomial_at = (\<lambda>k n p. 0),
      choice_at = (\<lambda>k len. 0), integers_at = (\<lambda>k lo hi. lo)\<rparr>"

text \<open>A stream whose every uniform draw is 0.\<close>

definition low_draws :: Draws where
  "low_draws =
     \<lparr>random_at = (\<lambda>k. 0), normal_at = (\<lambda>k. 0), binomial_at = (\<lambda>k n p. 0),
      choice_at = (\<lambda>k len. 0), integers_at = (\<lambda>k lo hi. lo)\<rparr>"

definition new_band :: "int \<Rightarrow> int \<Rightarrow> real \<times> real \<Rightarrow> Strategy \<Rightarrow> real \<Rightarrow> Band" where
  "new_band i sz home st res =
     \<lparr>band_id = i, size_b = sz, home_location = home, strategy = st, resources = res,
      prestige = 0, monument_contributions = 0, exotic_goods = 0, obligations = [],
      aggregation_history = [], fitness_history = [], strategy_history = []\<rparr>"

definition new_patch :: "int \<Rightarrow> ResourceZone \<Rightarrow> real \<Rightarrow> EcologicalPatch" where
  "new_patch i zone var =
     \<lparr>patch_id = i, zone_type = zone, patch_location = (0, 0), base_productivity = 1 / 2,
      variability = var, current_productivity = 0, annual_shock = 0\<rparr>"

text \<open>An integrated simulation in January of year 0, with one aquatic patch and no band.\<close>

definition new_integrated :: IntegratedSimulation where
  "new_integrated =
     \<lparr>i_params = default_parameters (1 / 2) (35 / 100) 42,
      shortfall_params = default_shortfall_params,
      i_rng = 0,
      environment =
        \<lparr>config = default_config, env_rng = 0, env_year = 0, env_month = 1,
         patches = [new_patch 0 AQUATIC (15 / 100)], cov_matrix = np_eye\<rparr>,
      i_bands = [],
      i_aggregation_site = create_aggregation_site (250, 250) (35 / 100) ''Poverty Point'',
      i_year = 0, i_month = 1, annual_productivities = [], effective_sigma = 0,
      i_in_shortfall = False, shortfall_severity = 0, i_shortfall_remaining = 0\<rparr>"

text \<open>The state of \<open>__init__\<close> for a given list of bands, the generator not yet used.\<close>

definition new_simulation :: "SimulationParameters \<Rightarrow> Band list \<Rightarrow> PovertyPointSimulation" where
  "new_simulation p bs =
     \<lparr>params = p, rng = 0, bands = bs,
      aggregation_site =
        create_aggregation_site
          (p_region_size (environment_p p) / 2, p_region_size (environment_p p) / 2)
          (epsilon p) ''Poverty Point'',
      year = 0, in_shortfall = False, shortfall_remaining = 0, shortfall_magnitude = 0,
      yearly_states = []\<rparr>"

text \<open>Two patches whose shocks are strongly and negatively correlated.\<close>

definition two_patches :: "EcologicalPatch list" where
  "two_patches = [new_patch 0 AQUATIC 2, new_patch 1 TERRESTRIAL 2]"

text \<open>A core simulation of one band of five, at home on the site.\<close>

definition one_band_simulation :: PovertyPointSimulation where
  "one_band_simulation =
     new_simulation (default_parameters (1 / 2) (35 / 100) 42)
       [new_band 0 5 (250, 250) INDEPENDENT (1 / 2)]"

text \<open>
  A run of two bands, and the stream of its construction and of its first year. The
  constructor places both bands on the site (calls 0, 1, 5, 6), makes them independent
  (calls 2, 7), of size \<open>10 - 5\<close> (calls 3, 8) and with resources \<open>0.59\<close> (calls 4, 9).
  In the first year a shortfall starts (call 10) with a low magnitude (call 11), both
  bands forage well (calls 12, 13), both decide to aggregate (calls 14, 15), neither
  acquires an exotic good (calls 17, 19), and the second band forms an obligation with
  the first (calls 20, 21).
\<close>

definition shortfall_draws :: Draws where
  "shortfall_draws =
     \<lparr>random_at = (\<lambda>k. if k \<in> {0, 1, 5, 6} then 1 / 2
                        else if k \<in> {10, 14, 15, 20} then 0 else 19 / 20),
      normal_at = (\<lambda>k. - 2), binomial_at = (\<lambda>k n p. 0), choice_at = (\<lambda>k len. 0),
      integers_at = (\<lambda>k lo hi. lo)\<rparr>"

definition two_band_parameters :: SimulationParameters where
  "two_band_parameters =
     (default_parameters (2 / 10) (35 / 100) 42)
       \<lparr>population := default_population\<lparr>n_bands := 2, initial_band_size := 10\<rparr>\<rparr>"

text \<open>
  A stream for a run of one band: the constructor places the band on the site
  (calls 0, 1), and every later uniform draw is 0, so that the band is an aggregator
  (call 2) of size \<open>initial_band_size - 5\<close> (call 3) with resources \<open>0.4\<close> (call 4).
\<close>

definition on_site_draws :: Draws where
  "on_site_draws =
     \<lparr>random_at = (\<lambda>k. if k < 2 then 1 / 2 else 0), normal_at = (\<lambda>k. 0),
      binomial_at = (\<lambda>k n p. 0), choice_at = (\<lambda>k len. 0),
      integers_at = (\<lambda>k lo hi. lo)\<rparr>"

text \<open>One band under a negative signalling cost.\<close>

definition negative_signal_parameters :: SimulationParameters where
  "negative_signal_parameters =
     (default_parameters (1 / 2) (35 / 100) 42)
       \<lparr>costs := default_costs\<lparr>C_signal := - (18 / 100)\<rparr>,
        population := default_population\<lparr>n_bands := 1, initial_band_size := 10\<rparr>\<rparr>"

text \<open>One band of twelve under size bounds in the wrong order.\<close>

definition inverted_bounds_parameters :: SimulationParameters where
  "inverted_bounds_parameters =
     (default_parameters (1 / 2) (35 / 100) 42)
       \<lparr>population := default_population\<lparr>n_bands := 1, initial_band_size := 17,
                                         min_band_size := 10, max_band_size := 5\<rparr>\<rparr>"

section \<open>Invariant of the recorded monument levels\<close>

text \<open>
  The recorded levels are in non-decreasing order, and the last one is the level of the
  site.
\<close>

definition levels_ok :: "PovertyPointSimulation \<Rightarrow> bool" where
  "levels_ok s \<longleftrightarrow>
     sorted (map ys_monument_level (yearly_states s))
     \<and> (yearly_states s \<noteq> [] \<longrightarrow>
          ys_monument_level (last (yearly_states s)) = monument_level (aggregation_site s))"

section \<open>The fitness model\<close>

lemma W_aggregator_linear:
  "W_aggregator sg ep n p
     = max 0 (aggregation_factor n p * (1 - alpha_eff ep p * sg))"
  by (simp add: W_aggregator_def aggregation_factor_def alpha_eff_def Let_def algebra_simps)

lemma W_independent_linear:
  "W_independent sg p
     = max 0 (R_ind (cooperation p) * (1 - beta_ind (vulnerability p) * sg))"
  by (simp add: W_independent_def Let_def)

lemma fitness_lines_meet:
  fixes A a R b :: real
  assumes "R * b - A * a \<noteq> 0"
  shows "A * (1 - a * ((R - A) / (R * b - A * a))) = R * (1 - b * ((R - A) / (R * b - A * a)))"
proof -
  define s where "s = (R - A) / (R * b - A * a)"
  have "s * (R * b - A * a) = R - A"
    using assms by (simp add: s_def)
  moreover have "A * (1 - a * s) - R * (1 - b * s) = (A - R) + s * (R * b - A * a)"
    by (simp add: algebra_simps)
  ultimately have "A * (1 - a * s) = R * (1 - b * s)"
    by simp
  then show ?thesis by (simp add: s_def)
qed

subsection \<open>Rounding to the nearest double\<close>

lemma binade_eq:
  assumes "2 powr of_int e \<le> \<bar>x\<bar>" and "\<bar>x\<bar> < 2 powr of_int (e + 1)"
  shows "binade x = e"
proof -
  have "0 < (2::real) powr of_int e" by simp
  with assms(1) have "0 < \<bar>x\<bar>" by linarith
  then show ?thesis
    using assms unfolding binade_def
    by (subst floor_log_eq_powr_iff) (simp_all add: add.commute)
qed

lemma fl_in_binade:
  assumes "2 powr of_int e \<le> \<bar>x\<bar>" and "\<bar>x\<bar> < 2 powr of_int (e + 1)"
  shows "fl x = of_int (py_round (x * 2 powr of_int (52 - e))) * 2 powr of_int (e - 52)"
proof -
  have "0 < (2::real) powr of_int e" by simp
  with assms(1) have "x \<noteq> 0" by auto
  then show ?thesis by (simp add: fl_def binade_eq [OF assms])
qed

lemma two_powr_numeral:
  "2 powr (of_int (numeral k)) = (2::real) ^ numeral k"
  "2 powr (of_int (- numeral k)) = 1 / (2::real) ^ numeral k"
  "2 powr (of_int 0) = (1::real)" "2 powr (of_int 1) = (2::real)"
  by (simp_all add: powr_minus divide_simps)

text \<open>The rounding in each of the binades that the values below fall into.\<close>

lemma fl_ranges:
  "1 \<le> \<bar>x\<bar> \<Longrightarrow> \<bar>x\<bar> < 2 \<Longrightarrow> fl x = of_int (py_round (x * 2 ^ 52)) / 2 ^ 52"
  "1 / 2 \<le> \<bar>x\<bar> \<Longrightarrow> \<bar>x\<bar> < 1 \<Longrightarrow> fl x = of_int (py_round (x * 2 ^ 53)) / 2 ^ 53"
  "1 / 4 \<le> \<bar>x\<bar> \<Longrightarrow> \<bar>x\<bar> < 1 / 2 \<Longrightarrow> fl x = of_int (py_round (x * 2 ^ 54)) / 2 ^ 54"
  "1 / 8 \<le> \<bar>x\<bar> \<Longrightarrow> \<bar>x\<bar> < 1 / 4 \<Longrightarrow> fl x = of_int (py_round (x * 2 ^ 55)) / 2 ^ 55"
  "1 / 16 \<le> \<bar>x\<bar> \<Longrightarrow> \<bar>x\<bar> < 1 / 8 \<Longrightarrow> fl x = of_int (py_round (x * 2 ^ 56)) / 2 ^ 56"
  "1 / 32 \<le> \<bar>x\<bar> \<Longrightarrow> \<bar>x\<bar> < 1 / 16 \<Longrightarrow> fl x = of_int (py_round (x * 2 ^ 57)) / 2 ^ 57"
  using fl_in_binade [of 0 x] fl_in_binade [of "-1" x] fl_in_binade [of "-2" x]
    fl_in_binade [of "-3" x] fl_in_binade [of "-4" x] fl_in_binade [of "-5" x]
  by (simp_all add: two_powr_numeral powr_minus divide_simps)

lemma py_round_nonneg: "0 \<le> x \<Longrightarrow> 0 \<le> py_round x"
  by (simp add: py_round_def Let_def)

lemma fl_nonneg: "0 \<le> x \<Longrightarrow> 0 \<le> fl x"
  by (simp add: fl_def py_round_nonneg)

lemmas fl_eval = fl_ranges py_round_def Let_def

subsection \<open>The default parameters in binary64\<close>

lemma fields_f64:
  "alpha_agg (vulnerability default_parameters_f64) = 3602879701896397 / 9007199254740992"
  "beta_ind (vulnerability default_parameters_f64) = 3 / 4"
  "R_ind (cooperation default_parameters_f64) = 2476979795053773 / 2251799813685248"
  by (simp_all add: default_parameters_f64_def default_parameters_def fl_eval)

lemma epsilon_f64: "fl (35 / 100) = 3152519739159347 / 9007199254740992"
  by (simp add: fl_eval)

lemma C_total_f64_default:
  "C_total_f64 (costs default_parameters_f64) = 7566047373982433 / 18014398509481984"
  by (simp add: C_total_f64_def default_parameters_f64_def default_parameters_def fl_eval)

lemma recip_f64_default:
  "fl (1 + B_recip (cooperation default_parameters_f64)) = 4728779608739021 / 4503599627370496"
  by (simp add: default_parameters_f64_def default_parameters_def fl_eval)

lemma cooperation_benefit_f64_one: "cooperation_benefit_f64 lg 1 c = 1"
  by (simp add: cooperation_benefit_f64_def)

lemma aggregation_factor_f64_default:
  "aggregation_factor_f64 lg 1 default_parameters_f64 = 5485384346137265 / 9007199254740992"
  unfolding aggregation_factor_f64_def C_total_f64_default recip_f64_default
    cooperation_benefit_f64_one
  by (simp add: fl_eval)

lemma numerator_f64_default:
  "numerator_f64 lg 1 default_parameters_f64 = 4422534834077827 / 9007199254740992"
  unfolding numerator_f64_def aggregation_factor_f64_default fields_f64
  by (simp add: fl_eval)

lemma alpha_eff_f64_default:
  "alpha_eff_f64 (fl (35 / 100)) default_parameters_f64 = 1170935903116329 / 4503599627370496"
  unfolding alpha_eff_f64_def fields_f64 epsilon_f64
  by (simp add: fl_eval)

lemma denom_f64_default:
  "denom_f64 lg (fl (35 / 100)) 1 default_parameters_f64 = 3002369727582815 / 4503599627370496"
  unfolding denom_f64_def aggregation_factor_f64_default alpha_eff_f64_default fields_f64
  by (simp add: fl_eval)

lemma quotient_f64_default:
  "fl ((4422534834077827 / 9007199254740992) / (3002369727582815 / 4503599627370496))
     = 3316934294901319 / 4503599627370496"
  by (simp add: fl_eval)

lemma critical_threshold_f64_default:
  "critical_threshold_f64 lg (fl (35 / 100)) 1 default_parameters_f64
     = Inr (3316934294901319 / 4503599627370496)"
  unfolding critical_threshold_f64_def numerator_f64_default denom_f64_default py_div_def
  by (simp add: fl_eval)

lemma W_aggregator_f64_default:
  "W_aggregator_f64 lg (3316934294901319 / 4503599627370496) (fl (35 / 100)) 1
     default_parameters_f64 = 4434977593627915 / 9007199254740992"
proof -
  have a: "fl (3316934294901319 / 4503599627370496 * fl (1 - fl (35 / 100)))
      = 4312014583371715 / 9007199254740992"
    unfolding epsilon_f64 by (simp add: fl_eval)
  have b: "fl (1 - fl (alpha_agg (vulnerability default_parameters_f64)
      * (4312014583371715 / 9007199254740992))) = 3641196710696153 / 4503599627370496"
    unfolding fields_f64 by (simp add: fl_eval)
  have c: "fl (fl (1 - C_total_f64 (costs default_parameters_f64))
      * (3641196710696153 / 4503599627370496)) = 2111894092203769 / 4503599627370496"
    unfolding C_total_f64_default by (simp add: fl_eval)
  have d: "fl (fl (2111894092203769 / 4503599627370496 * 1)
      * (4728779608739021 / 4503599627370496)) = 4434977593627915 / 9007199254740992"
    by (simp add: fl_eval)
  show ?thesis
    unfolding W_aggregator_f64_def Let_def cooperation_benefit_f64_one a b c
      recip_f64_default d
    by simp
qed

lemma W_independent_f64_default:
  "W_independent_f64 (3316934294901319 / 4503599627370496) default_parameters_f64
     = 4434977593627916 / 9007199254740992"
proof -
  have a: "fl (1 - fl (beta_ind (vulnerability default_parameters_f64)
      * (3316934294901319 / 4503599627370496))) = 2015898906194507 / 4503599627370496"
    unfolding fields_f64 by (simp add: fl_eval)
  have b: "fl (R_ind (cooperation default_parameters_f64)
      * (2015898906194507 / 4503599627370496)) = 4434977593627916 / 9007199254740992"
    unfolding fields_f64 by (simp add: fl_eval)
  show ?thesis
    unfolding W_independent_f64_def Let_def a b by simp
qed

subsection \<open>The critical threshold\<close>

text \<open>
  Claim C1, as the code has it. In exact arithmetic, whenever the closed form
  \<open>\<sigma>* = (R_ind - A) / (R_ind * \<beta> - A * \<alpha>_eff)\<close> has a positive numerator and a positive
  denominator and is at most 1, \<open>critical_threshold\<close> returns exactly that value, and
  the two fitness functions agree there. In binary64, when the computed numerator and
  denominator are positive and their rounded quotient is at most 1,
  \<open>critical_threshold\<close> returns that rounded quotient: the closed form evaluated in
  doubles. The equality of the two fitness values is one of exact arithmetic only.
\<close>

theorem critical_threshold_exact:
  "(0 < numerator n p \<and> 0 < denom ep n p \<and> numerator n p / denom ep n p \<le> 1
      \<longrightarrow> critical_threshold ep n p = Inr (numerator n p / denom ep n p)
          \<and> W_aggregator (numerator n p / denom ep n p) ep n p
              = W_independent (numerator n p / denom ep n p) p)
   \<and> (0 < numerator_f64 lg n p \<and> 0 < denom_f64 lg ep n p
        \<and> fl (numerator_f64 lg n p / denom_f64 lg ep n p) \<le> 1
      \<longrightarrow> critical_threshold_f64 lg ep n p
            = Inr (fl (numerator_f64 lg n p / denom_f64 lg ep n p)))"
proof (intro conjI impI; elim conjE)
  assume h: "0 < numerator n p" "0 < denom ep n p" "numerator n p / denom ep n p \<le> 1"
  then have pos: "0 < numerator n p / denom ep n p" by simp
  show "critical_threshold ep n p = Inr (numerator n p / denom ep n p)"
    using h pos by (simp add: critical_threshold_def py_div_def max_def min_def)
next
  assume h: "0 < numerator n p" "0 < denom ep n p" "numerator n p / denom ep n p \<le> 1"
  then have nz: "R_ind (cooperation p) * beta_ind (vulnerability p)
              - aggregation_factor n p * alpha_eff ep p \<noteq> 0"
    by (simp add: denom_def)
  show "W_aggregator (numerator n p / denom ep n p) ep n p
          = W_independent (numerator n p / denom ep n p) p"
    unfolding W_aggregator_linear W_independent_linear numerator_def denom_def
    using fitness_lines_meet [OF nz] by simp
next
  assume h: "0 < numerator_f64 lg n p" "0 < denom_f64 lg ep n p"
    "fl (numerator_f64 lg n p / denom_f64 lg ep n p) \<le> 1"
  then have "0 \<le> numerator_f64 lg n p / denom_f64 lg ep n p" by simp
  then have "0 \<le> fl (numerator_f64 lg n p / denom_f64 lg ep n p)" by (rule fl_nonneg)
  with h show "critical_threshold_f64 lg ep n p
           = Inr (fl (numerator_f64 lg n p / denom_f64 lg ep n p))"
    by (simp add: critical_threshold_f64_def py_div_def max_def min_def)
qed

theorem critical_threshold_exact_witness:
  "0 < numerator 1 (default_parameters (1 / 2) (35 / 100) 42)
   \<and> 0 < denom (35 / 100) 1 (default_parameters (1 / 2) (35 / 100) 42)
   \<and> numerator 1 (default_parameters (1 / 2) (35 / 100) 42)
         / denom (35 / 100) 1 (default_parameters (1 / 2) (35 / 100) 42) \<le> 1
   \<and> critical_threshold (35 / 100) 1 (default_parameters (1 / 2) (35 / 100) 42)
         = Inr (24550 / 33333)
   \<and> W_aggregator (24550 / 33333) (35 / 100) 1 (default_parameters (1 / 2) (35 / 100) 42)
         = W_independent (24550 / 33333) (default_parameters (1 / 2) (35 / 100) 42)
   \<and> 0 < numerator_f64 np_log_rounded 1 default_parameters_f64
   \<and> 0 < denom_f64 np_log_rounded (fl (35 / 100)) 1 default_parameters_f64
   \<and> fl (numerator_f64 np_log_rounded 1 default_parameters_f64
            / denom_f64 np_log_rounded (fl (35 / 100)) 1 default_parameters_f64) \<le> 1
   \<and> critical_threshold_f64 np_log_rounded (fl (35 / 100)) 1 default_parameters_f64
         = Inr (fl (numerator_f64 np_log_rounded 1 default_parameters_f64
                      / denom_f64 np_log_rounded (fl (35 / 100)) 1 default_parameters_f64))
   \<and> fl (numerator_f64 np_log_rounded 1 default_parameters_f64
            / denom_f64 np_log_rounded (fl (35 / 100)) 1 default_parameters_f64)
         = 3316934294901319 / 4503599627370496"
proof -
  let ?p = "default_parameters (1 / 2) (35 / 100) 42"
  let ?n = "numerator_f64 np_log_rounded 1 default_parameters_f64"
  let ?d = "denom_f64 np_log_rounded (fl (35 / 100)) 1 default_parameters_f64"
  have num: "numerator 1 ?p = 491 / 1000"
    by (simp add: numerator_def aggregation_factor_def cooperation_benefit_def C_total_def
        default_parameters_def default_costs_def default_cooperation_def)
  have den: "denom (35 / 100) 1 ?p = 66666 / 100000"
    by (simp add: denom_def alpha_eff_def aggregation_factor_def cooperation_benefit_def
        C_total_def default_parameters_def default_costs_def default_cooperation_def
        default_vulnerability_def)
  have q: "numerator 1 ?p / denom (35 / 100) 1 ?p = 24550 / 33333"
    unfolding num den by simp
  have h1: "0 < numerator 1 ?p" unfolding num by simp
  have h2: "0 < denom (35 / 100) 1 ?p" unfolding den by simp
  have h3: "numerator 1 ?p / denom (35 / 100) 1 ?p \<le> 1" unfolding q by simp
  have g1: "0 < ?n" unfolding numerator_f64_default by simp
  have g2: "0 < ?d" unfolding denom_f64_default by simp
  have v: "fl (?n / ?d) = 3316934294901319 / 4503599627370496"
    unfolding numerator_f64_default denom_f64_default by (rule quotient_f64_default)
  have g3: "fl (?n / ?d) \<le> 1" unfolding v by simp
  note t = critical_threshold_exact [of 1 ?p "35 / 100" np_log_rounded]
  from t h1 h2 h3 have r: "critical_threshold (35 / 100) 1 ?p = Inr (24550 / 33333)
        \<and> W_aggregator (24550 / 33333) (35 / 100) 1 ?p = W_independent (24550 / 33333) ?p"
    unfolding q by blast
  note u = critical_threshold_exact [of 1 default_parameters_f64 "fl (35 / 100)"
      np_log_rounded]
  from u g1 g2 g3
  have f: "critical_threshold_f64 np_log_rounded (fl (35 / 100)) 1 default_parameters_f64
             = Inr (fl (?n / ?d))"
    by blast
  from h1 h2 h3 r g1 g2 g3 f v show ?thesis by (intro conjI) blast+
qed

text \<open>
  The claim's equality of the two fitness values fails on the doubles the code computes
  with: for the default parameters, \<open>\<epsilon> = 0.35\<close> and \<open>n = 1\<close>, \<open>critical_threshold\<close>
  returns \<open>0.7365073650736507\<close>, where \<open>W_aggregator\<close> is \<open>0.4923814238142382\<close> and
  \<open>W_independent\<close> is \<open>0.49238142381423833\<close>, one unit in the last place above it.
\<close>

theorem fitness_values_differ_in_binary64:
  "0 < numerator_f64 np_log_rounded 1 default_parameters_f64
   \<and> 0 < denom_f64 np_log_rounded (fl (35 / 100)) 1 default_parameters_f64
   \<and> critical_threshold_f64 np_log_rounded (fl (35 / 100)) 1 default_parameters_f64
       = Inr (3316934294901319 / 4503599627370496)
   \<and> W_aggregator_f64 np_log_rounded (3316934294901319 / 4503599627370496) (fl (35 / 100)) 1
         default_parameters_f64
       = 4434977593627915 / 9007199254740992
   \<and> W_independent_f64 (3316934294901319 / 4503599627370496) default_parameters_f64
       = 4434977593627916 / 9007199254740992
   \<and> W_aggregator_f64 np_log_rounded (3316934294901319 / 4503599627370496) (fl (35 / 100)) 1
         default_parameters_f64
       \<noteq> W_independent_f64 (3316934294901319 / 4503599627370496) default_parameters_f64"
proof -
  have "0 < numerator_f64 np_log_rounded 1 default_parameters_f64"
    unfolding numerator_f64_default by simp
  moreover have "0 < denom_f64 np_log_rounded (fl (35 / 100)) 1 default_parameters_f64"
    unfolding denom_f64_default by simp
  moreover have "W_aggregator_f64 np_log_rounded (3316934294901319 / 4503599627370496)
      (fl (35 / 100)) 1 default_parameters_f64
       \<noteq> W_independent_f64 (3316934294901319 / 4503599627370496) default_parameters_f64"
    unfolding W_aggregator_f64_default W_independent_f64_default by simp
  ultimately show ?thesis
    using critical_threshold_f64_default [of np_log_rounded]
      W_aggregator_f64_default [of np_log_rounded] W_independent_f64_default
    by (intro conjI)
qed



section \<open>Band operations\<close>

text \<open>
  Claim C4, as the code has it. For a partner present in the obligations map with
  strength \<open>s\<close>, one call returns \<open>min need (s / 2)\<close>, multiplies the stored strength
  by \<open>0.7\<close>, deletes the edge when the weakened strength is below \<open>0.05\<close>, and
  touches no other edge and no other field of the band.
\<close>

theorem call_obligation_weakens:
  assumes "map_of (obligations b) partner_id = Some s"
  shows "fst (call_obligation b partner_id need) = min need (s * (1 / 2))
         \<and> map_of (obligations (snd (call_obligation b partner_id need))) partner_id
             = (if s * (7 / 10) < 5 / 100 then None else Some (s * (7 / 10)))
         \<and> (\<forall>q. q \<noteq> partner_id \<longrightarrow>
               map_of (obligations (snd (call_obligation b partner_id need))) q
                 = map_of (obligations b) q)
         \<and> (snd (call_obligation b partner_id need))\<lparr>obligations := obligations b\<rparr> = b"
  using assms
  by (simp add: call_obligation_def Let_def update_conv' delete_conv')

theorem call_obligation_weakens_witness:
  "map_of (obligations ((new_band 0 20 (0, 0) AGGREGATOR (1 / 2))
       \<lparr>obligations := [(1, 1), (2, 1 / 2)]\<rparr>)) 1 = Some 1
   \<and> fst (call_obligation ((new_band 0 20 (0, 0) AGGREGATOR (1 / 2))
       \<lparr>obligations := [(1, 1), (2, 1 / 2)]\<rparr>) 1 (2 / 10)) = 2 / 10
   \<and> map_of (obligations (snd (call_obligation ((new_band 0 20 (0, 0) AGGREGATOR (1 / 2))
       \<lparr>obligations := [(1, 1), (2, 1 / 2)]\<rparr>) 1 (2 / 10)))) 1 = Some (7 / 10)
   \<and> (2::int) \<noteq> 1
   \<and> map_of (obligations (snd (call_obligation ((new_band 0 20 (0, 0) AGGREGATOR (1 / 2))
       \<lparr>obligations := [(1, 1), (2, 1 / 2)]\<rparr>) 1 (2 / 10)))) 2 = Some (1 / 2)"
proof -
  let ?b = "(new_band 0 20 (0, 0) AGGREGATOR (1 / 2))\<lparr>obligations := [(1, 1), (2, 1 / 2)]\<rparr>"
  have h: "map_of (obligations ?b) 1 = Some 1"
    by (simp add: new_band_def)
  have o: "map_of (obligations ?b) 2 = Some (1 / 2)"
    by (simp add: new_band_def)
  from call_obligation_weakens [OF h, of "2 / 10"]
  have "fst (call_obligation ?b 1 (2 / 10)) = 2 / 10"
    "map_of (obligations (snd (call_obligation ?b 1 (2 / 10)))) 1 = Some (7 / 10)"
    "map_of (obligations (snd (call_obligation ?b 1 (2 / 10)))) 2 = map_of (obligations ?b) 2"
    by simp_all
  with h o show ?thesis by simp
qed

text \<open>
  The claim's "halves the stored edge strength" fails: an edge of strength 1 is left at
  \<open>0.7\<close>, not \<open>0.5\<close>.
\<close>

theorem call_obligation_not_halving:
  "map_of (obligations (snd (call_obligation
      ((new_band 0 20 (0, 0) AGGREGATOR (1 / 2))\<lparr>obligations := [(1, 1)]\<rparr>) 1 (2 / 10)))) 1
     \<noteq> Some (1 * (1 / 2))"
  by (simp add: call_obligation_def new_band_def)

text \<open>
  Claim C10, as the code has it. \<open>invest_in_monument\<close> changes only
  \<open>monument_contributions\<close> and \<open>prestige\<close>: below the resource threshold it returns 0,
  draws nothing and changes nothing; otherwise the investment is
  \<open>size * rate * resources * (0.8 + 0.4 * u)\<close>, \<open>monument_contributions\<close> grows by the
  investment and \<open>prestige\<close> by a tenth of it. The investment is non-negative for a
  non-negative size, rate and draw. Resources, size, exotic goods, obligations and the
  histories stay as they were.
\<close>

theorem invest_in_monument_frame:
  assumes "invest_in_monument D b rate k = (amount, b', k')"
  shows "(resources b < 3 / 10 \<longrightarrow> amount = 0 \<and> b' = b \<and> k' = k)
         \<and> (\<not> resources b < 3 / 10 \<longrightarrow>
               amount = of_int (size_b b) * rate * resources b * (8 / 10 + 4 / 10 * random_at D k)
               \<and> monument_contributions b' = monument_contributions b + amount
               \<and> prestige b' = prestige b + amount / 10)
         \<and> (0 \<le> size_b b \<and> 0 \<le> rate \<and> 0 \<le> random_at D k \<longrightarrow> 0 \<le> amount)
         \<and> b' = b\<lparr>monument_contributions := monument_contributions b + amount,
                   prestige := prestige b + amount / 10\<rparr>
         \<and> resources b' = resources b \<and> size_b b' = size_b b
         \<and> exotic_goods b' = exotic_goods b \<and> obligations b' = obligations b
         \<and> aggregation_history b' = aggregation_history b
         \<and> fitness_history b' = fitness_history b
         \<and> strategy_history b' = strategy_history b"
proof (cases "resources b < 3 / 10")
  case True
  with assms show ?thesis
    by (auto simp add: invest_in_monument_def)
next
  case False
  then have pos: "0 \<le> resources b" by simp
  from False assms have amt: "amount = of_int (size_b b) * rate * resources b
      * (8 / 10 + 4 / 10 * random_at D k)"
    and b': "b' = b\<lparr>monument_contributions := monument_contributions b + amount,
                    prestige := prestige b + amount / 10\<rparr>"
    by (auto simp add: invest_in_monument_def rng_random_def Let_def)
  have "0 \<le> amount" if "0 \<le> size_b b" "0 \<le> rate" "0 \<le> random_at D k"
    unfolding amt using that pos by simp
  with False amt b' show ?thesis by simp
qed

theorem invest_in_monument_frame_witness:
  "invest_in_monument half_draws (new_band 0 10 (0, 0) AGGREGATOR (1 / 2)) (1 / 10) 0
     = (1 / 2,
        (new_band 0 10 (0, 0) AGGREGATOR (1 / 2))\<lparr>monument_contributions := 1 / 2,
                                                   prestige := 1 / 20\<rparr>,
        1)
   \<and> \<not> resources (new_band 0 10 (0, 0) AGGREGATOR (1 / 2)) < 3 / 10
   \<and> resources ((new_band 0 10 (0, 0) AGGREGATOR (1 / 2))\<lparr>monument_contributions := 1 / 2,
                                                   prestige := 1 / 20\<rparr>) = 1 / 2
   \<and> (0::int) \<le> 10 \<and> (0::real) \<le> 1 / 10 \<and> 0 \<le> random_at half_draws 0
   \<and> (0::real) \<le> 1 / 2
   \<and> resources (new_band 0 10 (0, 0) AGGREGATOR (1 / 5)) < 3 / 10
   \<and> invest_in_monument half_draws (new_band 0 10 (0, 0) AGGREGATOR (1 / 5)) (1 / 10) 0
       = (0, new_band 0 10 (0, 0) AGGREGATOR (1 / 5), 0)"
proof -
  let ?b = "new_band 0 10 (0, 0) AGGREGATOR (1 / 2)"
  let ?b' = "?b\<lparr>monument_contributions := 1 / 2, prestige := 1 / 20\<rparr>"
  let ?c = "new_band 0 10 (0, 0) AGGREGATOR (1 / 5)"
  have run: "invest_in_monument half_draws ?b (1 / 10) 0 = (1 / 2, ?b', 1)"
    by (simp add: invest_in_monument_def rng_random_def half_draws_def new_band_def Let_def)
  have low: "resources ?c < 3 / 10"
    by (simp add: new_band_def)
  obtain a c' k' where poor: "invest_in_monument half_draws ?c (1 / 10) 0 = (a, c', k')"
    by (cases "invest_in_monument half_draws ?c (1 / 10) 0") auto
  from invest_in_monument_frame [OF poor] low have "a = 0 \<and> c' = ?c \<and> k' = 0"
    by blast
  with poor have still: "invest_in_monument half_draws ?c (1 / 10) 0 = (0, ?c, 0)"
    by simp
  from invest_in_monument_frame [OF run] run low still
  show ?thesis by (simp add: new_band_def half_draws_def)
qed

text \<open>
  The claim's "increases prestige by the investment amount" fails: an investment of
  \<open>0.5\<close> raises prestige by \<open>0.05\<close>.
\<close>

theorem invest_in_monument_prestige_tenth:
  "fst (invest_in_monument half_draws (new_band 0 10 (0, 0) AGGREGATOR (1 / 2)) (1 / 10) 0)
     = 1 / 2
   \<and> prestige (fst (snd (invest_in_monument half_draws
         (new_band 0 10 (0, 0) AGGREGATOR (1 / 2)) (1 / 10) 0)))
       \<noteq> prestige (new_band 0 10 (0, 0) AGGREGATOR (1 / 2))
           + fst (invest_in_monument half_draws
                    (new_band 0 10 (0, 0) AGGREGATOR (1 / 2)) (1 / 10) 0)"
  by (simp add: invest_in_monument_def rng_random_def half_draws_def new_band_def Let_def)

section \<open>Shortfall episodes\<close>

lemma np_clip_bounds: "lo \<le> hi \<Longrightarrow> lo \<le> np_clip x lo hi \<and> np_clip x lo hi \<le> hi"
  by (simp add: np_clip_def min_def max_def)

lemma py_int_mono: "x \<le> y \<Longrightarrow> py_int x \<le> py_int y"
proof -
  assume xy: "x \<le> y"
  have "\<lceil>x\<rceil> \<le> \<lfloor>y\<rfloor>" if "x < 0" "0 \<le> y"
  proof -
    have "\<lceil>x\<rceil> \<le> 0" using that(1) by (simp add: ceiling_le_zero)
    moreover have "0 \<le> \<lfloor>y\<rfloor>" using that(2) by simp
    ultimately show ?thesis by linarith
  qed
  with xy show ?thesis
    unfolding py_int_def by (auto simp: floor_mono ceiling_mono)
qed

lemma shortfall_duration_mono:
  "0 \<le> scale \<Longrightarrow> m \<le> m' \<Longrightarrow> shortfall_duration m scale \<le> shortfall_duration m' scale"
  unfolding shortfall_duration_def
  by (intro max.mono order_refl py_int_mono) (simp add: mult_right_mono)

lemma shortfall_duration_floor:
  "0 \<le> 1 + m * scale \<Longrightarrow> shortfall_duration m scale = max 1 \<lfloor>1 + m * scale\<rfloor>"
  by (simp add: shortfall_duration_def py_int_def)

lemma shortfall_duration_core_range:
  "2 / 10 \<le> m \<Longrightarrow> m \<le> 9 / 10
     \<Longrightarrow> 1 \<le> shortfall_duration m (25 / 10) \<and> shortfall_duration m (25 / 10) \<le> 3"
  unfolding shortfall_duration_def py_int_def
  by (auto simp: floor_le_iff le_floor_iff)

lemma generate_shortfall_new:
  assumes "generate_shortfall D p k = Inr ((True, magnitude, dur), k')"
  shows "2 / 10 \<le> magnitude \<and> magnitude \<le> 9 / 10
         \<and> dur = shortfall_duration magnitude (25 / 10)"
  using assms
    np_clip_bounds [of "2 / 10" "9 / 10"
      "3 / 10 + 5 / 10 * sigma p + (0 + 1 / 10 * normal_at D (Suc k))"]
  by (auto simp add: generate_shortfall_def py_div_def rng_random_def rng_normal_def Let_def
      split: if_splits sum.splits prod.splits)

lemma evaluate_shortfall_new:
  assumes "evaluate_shortfall D s = Inr ((True, severity), s')"
    and "i_shortfall_remaining s \<le> 0"
  shows "1 / 10 \<le> severity \<and> severity \<le> 9 / 10
         \<and> i_shortfall_remaining s'
             = shortfall_duration severity (duration_scale (shortfall_params s)) - 1"
proof -
  obtain mp nz env' where
    z: "zone_mean_loop [AQUATIC, TERRESTRIAL, MAST, ECOTONE] (environment s) 0 0 = (mp, nz, env')"
    by (cases "zone_mean_loop [AQUATIC, TERRESTRIAL, MAST, ECOTONE] (environment s) 0 0") auto
  note c = np_clip_bounds [of "1 / 10" "9 / 10"
      "magnitude_mean (shortfall_params s)
         + (0 + magnitude_std (shortfall_params s) * normal_at D (Suc (i_rng s)))"]
  from assms c show ?thesis
    unfolding evaluate_shortfall_def z
    by (auto simp add: py_div_def rng_random_def rng_normal_def Let_def
        split: if_splits sum.splits prod.splits)
qed

lemma shortfall_determination_new:
  assumes "shortfall_remaining s \<le> 0"
    and "generate_shortfall D (params s) (rng s) = Inr ((True, magnitude, dur), k')"
  shows "shortfall_determination D s
           = Inr (s\<lparr>rng := k', in_shortfall := True, shortfall_magnitude := magnitude,
                    shortfall_remaining := dur\<rparr>)"
  using assms by (simp add: shortfall_determination_def)

text \<open>
  Claim C5, as the code has it. When a new shortfall starts, its duration is
  \<open>max(1, int(1 + magnitude * duration_scale))\<close> of the clipped magnitude, where \<open>int\<close>
  truncates: the floor, for the values that occur. In the core simulation the scale is
  \<open>2.5\<close>, the magnitude is clipped to \<open>[0.2, 0.9]\<close>, the duration lies between 1 and 3,
  and \<open>step\<close> stores it as the remaining duration. In the integrated simulation the
  magnitude is clipped to \<open>[0.1, 0.9]\<close> and the remaining duration is the duration less
  the current year. For a non-negative scale the duration does not decrease when the
  magnitude grows.
\<close>

theorem new_shortfall_duration:
  "(generate_shortfall D p k = Inr ((True, magnitude, dur), k') \<longrightarrow>
      2 / 10 \<le> magnitude \<and> magnitude \<le> 9 / 10
      \<and> dur = max 1 \<lfloor>1 + magnitude * (25 / 10)\<rfloor> \<and> 1 \<le> dur \<and> dur \<le> 3)
   \<and> (shortfall_remaining cs \<le> 0
        \<and> generate_shortfall D (params cs) (rng cs) = Inr ((True, magnitude, dur), k') \<longrightarrow>
      shortfall_determination D cs
        = Inr (cs\<lparr>rng := k', in_shortfall := True, shortfall_magnitude := magnitude,
                  shortfall_remaining := dur\<rparr>))
   \<and> (evaluate_shortfall E s = Inr ((True, severity), s') \<and> i_shortfall_remaining s \<le> 0 \<longrightarrow>
      1 / 10 \<le> severity \<and> severity \<le> 9 / 10
      \<and> i_shortfall_remaining s'
          = shortfall_duration severity (duration_scale (shortfall_params s)) - 1)
   \<and> (0 \<le> 1 + m * scale \<longrightarrow> shortfall_duration m scale = max 1 \<lfloor>1 + m * scale\<rfloor>)
   \<and> (0 \<le> scale \<and> m \<le> m' \<longrightarrow> shortfall_duration m scale \<le> shortfall_duration m' scale)"
proof (intro conjI impI)
  assume g: "generate_shortfall D p k = Inr ((True, magnitude, dur), k')"
  note n = generate_shortfall_new [OF g]
  then have "0 \<le> 1 + magnitude * (25 / 10)" by simp
  from shortfall_duration_floor [OF this] n
  show "dur = max 1 \<lfloor>1 + magnitude * (25 / 10)\<rfloor>" by simp
  from n show "2 / 10 \<le> magnitude" "magnitude \<le> 9 / 10" by simp_all
  from n shortfall_duration_core_range [of magnitude]
  show "1 \<le> dur" "dur \<le> 3" by simp_all
next
  assume "shortfall_remaining cs \<le> 0
    \<and> generate_shortfall D (params cs) (rng cs) = Inr ((True, magnitude, dur), k')"
  then show "shortfall_determination D cs
        = Inr (cs\<lparr>rng := k', in_shortfall := True, shortfall_magnitude := magnitude,
                  shortfall_remaining := dur\<rparr>)"
    using shortfall_determination_new by blast
next
  assume e: "evaluate_shortfall E s = Inr ((True, severity), s') \<and> i_shortfall_remaining s \<le> 0"
  then have n: "1 / 10 \<le> severity \<and> severity \<le> 9 / 10
         \<and> i_shortfall_remaining s'
             = shortfall_duration severity (duration_scale (shortfall_params s)) - 1"
    using evaluate_shortfall_new by blast
  from n show "1 / 10 \<le> severity" "severity \<le> 9 / 10"
    "i_shortfall_remaining s'
       = shortfall_duration severity (duration_scale (shortfall_params s)) - 1"
    by simp_all
next
  assume "0 \<le> 1 + m * scale"
  then show "shortfall_duration m scale = max 1 \<lfloor>1 + m * scale\<rfloor>"
    by (rule shortfall_duration_floor)
next
  assume "0 \<le> scale \<and> m \<le> m'"
  then show "shortfall_duration m scale \<le> shortfall_duration m' scale"
    using shortfall_duration_mono by blast
qed

lemma evaluate_shortfall_sample: "\<exists>s'. evaluate_shortfall low_draws new_integrated = Inr ((True, 1 / 2), s')"
  by (simp add: evaluate_shortfall_def new_integrated_def get_zone_productivity_def
      get_seasonal_productivity_def get_multiplier_def new_patch_def np_mean_def
      default_shortfall_params_def py_div_def rng_random_def rng_normal_def low_draws_def
      np_clip_def shortfall_duration_def py_int_def Let_def)

theorem new_shortfall_duration_witness:
  "generate_shortfall low_draws (default_parameters 0 (35 / 100) 42) 0
     = Inr ((True, 3 / 10, 1), 2)
   \<and> shortfall_determination low_draws (new_simulation (default_parameters 0 (35 / 100) 42) [])
     = Inr ((new_simulation (default_parameters 0 (35 / 100) 42) [])
              \<lparr>rng := 2, in_shortfall := True, shortfall_magnitude := 3 / 10,
               shortfall_remaining := 1\<rparr>)
   \<and> (\<exists>s'. evaluate_shortfall low_draws new_integrated = Inr ((True, 1 / 2), s')
          \<and> i_shortfall_remaining s' = 1)
   \<and> shortfall_duration (3 / 10) (25 / 10) = 1
   \<and> shortfall_duration (3 / 10) (25 / 10) \<le> shortfall_duration (9 / 10) (25 / 10)"
proof -
  let ?p = "default_parameters 0 (35 / 100) 42"
  let ?cs = "new_simulation ?p []"
  have g: "generate_shortfall low_draws ?p 0 = Inr ((True, 3 / 10, 1), 2)"
    by (simp add: generate_shortfall_def py_div_def rng_random_def rng_normal_def low_draws_def
        default_parameters_def np_clip_def shortfall_duration_def py_int_def Let_def)
  have c: "shortfall_remaining ?cs \<le> 0
        \<and> generate_shortfall low_draws (params ?cs) (rng ?cs) = Inr ((True, 3 / 10, 1), 2)"
    using g by (simp add: new_simulation_def)
  obtain s' where e: "evaluate_shortfall low_draws new_integrated = Inr ((True, 1 / 2), s')"
    using evaluate_shortfall_sample by blast
  have r: "i_shortfall_remaining new_integrated \<le> 0"
    by (simp add: new_integrated_def)
  have sc: "duration_scale (shortfall_params new_integrated) = 25 / 10"
    by (simp add: new_integrated_def default_shortfall_params_def)
  have d: "shortfall_duration (1 / 2) (5 / 2) = 2"
    by (simp add: shortfall_duration_def py_int_def)
  have f: "(0::real) \<le> 1 + 3 / 10 * (25 / 10)" by simp
  have m: "(0::real) \<le> 25 / 10 \<and> (3 / 10 :: real) \<le> 9 / 10" by simp
  note t = new_shortfall_duration [where D = low_draws and p = ?p and k = 0
      and magnitude = "3 / 10" and dur = 1 and k' = 2 and cs = ?cs and E = low_draws
      and s = new_integrated and severity = "1 / 2" and s' = s' and m = "3 / 10"
      and scale = "25 / 10" and m' = "9 / 10"]
  from t g c e r f m have
    "shortfall_determination low_draws ?cs
       = Inr (?cs\<lparr>rng := 2, in_shortfall := True, shortfall_magnitude := 3 / 10,
                  shortfall_remaining := 1\<rparr>)"
    "i_shortfall_remaining s'
       = shortfall_duration (1 / 2) (duration_scale (shortfall_params new_integrated)) - 1"
    "shortfall_duration (3 / 10) (25 / 10) = max 1 \<lfloor>1 + 3 / 10 * (25 / 10) :: real\<rfloor>"
    "shortfall_duration (3 / 10) (25 / 10) \<le> shortfall_duration (9 / 10) (25 / 10)"
    by blast+
  then show ?thesis using g e by (auto simp add: sc d)
qed

text \<open>
  The claim's \<open>round\<close> fails: at magnitude \<open>0.3\<close> the code computes
  \<open>int(1.75) = 1\<close> year, where the rounded formula gives 2.
\<close>

theorem shortfall_duration_not_rounded:
  "generate_shortfall low_draws (default_parameters 0 (35 / 100) 42) 0
     = Inr ((True, 3 / 10, 1), 2)
   \<and> spec_shortfall_duration (3 / 10) (25 / 10) = 2"
  by (simp add: generate_shortfall_def py_div_def rng_random_def rng_normal_def low_draws_def
      default_parameters_def np_clip_def shortfall_duration_def py_int_def Let_def
      spec_shortfall_duration_def py_round_def)

section \<open>The covariance matrix\<close>

text \<open>
  What the loops build: ones on the diagonal, and off the diagonal the covariance of
  the two patches, the one of the lower index first.
\<close>

lemma covariance_body_apply:
  "covariance_body cfg pts (i, j) M a b =
     (if i < j \<and> ((a, b) = (i, j) \<or> (a, b) = (j, i))
      then pair_covariance cfg (pts ! i) (pts ! j)
      else M a b)"
  by (auto simp add: covariance_body_def set_entry_def Let_def)

lemma fold_covariance_body:
  "fold (covariance_body cfg pts) ps M a b =
     (if a < b \<and> (a, b) \<in> set ps then pair_covariance cfg (pts ! a) (pts ! b)
      else if b < a \<and> (b, a) \<in> set ps then pair_covariance cfg (pts ! b) (pts ! a)
      else M a b)"
proof (induction ps arbitrary: M)
  case Nil
  show ?case by simp
next
  case (Cons q ps)
  obtain i j where q: "q = (i, j)" by (cases q)
  show ?case
    unfolding q fold_simps Cons.IH covariance_body_apply
    by auto
qed

lemma covariance_loops_entry:
  assumes "a < length pts" and "b < length pts"
  shows "covariance_loops cfg pts a b =
     (if a = b then 1
      else if a < b then pair_covariance cfg (pts ! a) (pts ! b)
      else pair_covariance cfg (pts ! b) (pts ! a))"
  using assms
  by (auto simp add: covariance_loops_def fold_covariance_body np_eye_def)

lemma pair_covariance_commute:
  "pair_covariance cfg x y = pair_covariance cfg y x"
  by (simp add: pair_covariance_def Let_def insert_commute mult.commute)

lemma covariance_loops_symmetric:
  assumes "a < length pts" and "b < length pts"
  shows "covariance_loops cfg pts a b = covariance_loops cfg pts b a"
  using assms pair_covariance_commute [of cfg "pts ! a" "pts ! b"]
  by (auto simp add: covariance_loops_entry)

lemma eye_row_sum: "i < n \<Longrightarrow> (\<Sum>j<n. np_eye i j * c * v j) = c * v i"
  by (simp add: np_eye_def sum.delta if_distrib [of "\<lambda>x. x * _"] cong: if_cong)

lemma eigenvalue_shift:
  assumes "eigenvalue n (\<lambda>i j. M i j + np_eye i j * c) mu"
  shows "eigenvalue n M (mu - c)"
proof -
  from assms obtain v where nz: "\<exists>i<n. v i \<noteq> 0"
    and ev: "\<forall>i<n. (\<Sum>j<n. (M i j + np_eye i j * c) * v j) = mu * v i"
    unfolding eigenvalue_def by blast
  have "(\<Sum>j<n. M i j * v j) = (mu - c) * v i" if "i < n" for i
  proof -
    have "(\<Sum>j<n. (M i j + np_eye i j * c) * v j)
            = (\<Sum>j<n. M i j * v j) + (\<Sum>j<n. np_eye i j * c * v j)"
      by (simp add: distrib_right sum.distrib)
    with ev that eye_row_sum [OF that, of c v] show ?thesis
      by (simp add: algebra_simps)
  qed
  with nz show ?thesis unfolding eigenvalue_def by blast
qed

text \<open>
  Claim C9. Let \<open>eigvalsh(cov).min()\<close> be a lower bound of the eigenvalues of the
  matrix the loops build, as the least eigenvalue is. Then for every non-empty patch
  collection and every configuration \<open>_build_covariance_matrix\<close> returns a matrix with
  no negative eigenvalue, whether or not the diagonal correction applies; on an empty
  collection it raises.
\<close>

theorem covariance_matrix_psd:
  assumes "\<forall>lam. eigenvalue (length pts) (covariance_loops cfg pts) lam
             \<longrightarrow> eig_min (length pts) (covariance_loops cfg pts) \<le> lam"
  shows "(pts = [] \<longrightarrow> build_covariance_matrix eig_min cfg pts = Inl ValueError)
         \<and> (pts \<noteq> [] \<longrightarrow>
              (\<exists>C. build_covariance_matrix eig_min cfg pts = Inr C
                   \<and> (\<forall>lam. eigenvalue (length pts) C lam \<longrightarrow> 0 \<le> lam)))"
proof (intro conjI impI)
  assume "pts = []"
  then show "build_covariance_matrix eig_min cfg pts = Inl ValueError"
    by (simp add: build_covariance_matrix_def)
next
  assume ne: "pts \<noteq> []"
  let ?n = "length pts"
  let ?cov = "covariance_loops cfg pts"
  let ?m = "eig_min ?n ?cov"
  show "\<exists>C. build_covariance_matrix eig_min cfg pts = Inr C
           \<and> (\<forall>lam. eigenvalue ?n C lam \<longrightarrow> 0 \<le> lam)"
  proof (cases "?m < 0")
    case True
    let ?C = "\<lambda>i j. ?cov i j + np_eye i j * (\<bar>?m\<bar> + 1 / 100)"
    have b: "build_covariance_matrix eig_min cfg pts = Inr ?C"
      using ne True by (simp add: build_covariance_matrix_def Let_def)
    have "0 \<le> lam" if "eigenvalue ?n ?C lam" for lam
    proof -
      from eigenvalue_shift [OF that] assms have "?m \<le> lam - (\<bar>?m\<bar> + 1 / 100)" by blast
      then show ?thesis by linarith
    qed
    with b show ?thesis by blast
  next
    case False
    have b: "build_covariance_matrix eig_min cfg pts = Inr ?cov"
      using ne False by (simp add: build_covariance_matrix_def Let_def)
    have "0 \<le> lam" if "eigenvalue ?n ?cov lam" for lam
      using that assms False by (meson not_less order_trans)
    with b show ?thesis by blast
  qed
qed

lemma two_patches_covariance: "covariance_loops default_config two_patches = (\<lambda>i j. if i = j then 1 else if (i = 0 \<and> j = 1) \<or> (i = 1 \<and> j = 0) then - (12 / 10) else 0)"
  apply (simp add: covariance_loops_def covariance_body_def pair_covariance_def set_entry_def
      np_eye_def two_patches_def new_patch_def default_config_def Let_def upt_rec
      numeral_2_eq_2 real_sqrt_mult)
  apply (auto simp add: fun_eq_iff)
  done


lemma sum_below_two: "(\<Sum>j<(2::nat). f j) = f 0 + f 1"
  by (simp add: numeral_2_eq_2)

lemma two_patches_lower_bound: 
  assumes "eigenvalue 2 (covariance_loops default_config two_patches) lam"
  shows "- (2 / 10) \<le> lam"
proof (rule ccontr)
  assume neg: "\<not> - (2 / 10) \<le> lam"
  from assms obtain v where nz: "\<exists>i<2. v i \<noteq> 0"
    and ev: "\<forall>i<2. (\<Sum>j<2. covariance_loops default_config two_patches i j * v j) = lam * v i"
    unfolding eigenvalue_def by blast
  have e0: "v 0 - 12 / 10 * v 1 = lam * v 0"
    using ev [rule_format, of 0] by (simp add: two_patches_covariance sum_below_two)
  have e1: "- (12 / 10) * v 0 + v 1 = lam * v 1"
    using ev [rule_format, of 1] by (simp add: two_patches_covariance sum_below_two)
  define t where "t = 1 - lam"
  have t: "12 / 10 < t" using neg by (simp add: t_def)
  have a: "t * v 0 = 12 / 10 * v 1" and b: "t * v 1 = 12 / 10 * v 0"
    using e0 e1 by (simp_all add: t_def algebra_simps)
  have "t * (t * v 0) = t * (12 / 10 * v 1)" by (simp only: a)
  also have "\<dots> = 12 / 10 * (t * v 1)" by simp
  also have "\<dots> = 12 / 10 * (12 / 10 * v 0)" by (simp only: b)
  finally have "t * (t * v 0) = 12 / 10 * (12 / 10 * v 0)" .
  then have "(t * t - 144 / 100) * v 0 = 0" by (simp add: algebra_simps)
  moreover have "144 / 100 < t * t"
  proof -
    have "12 / 10 * (12 / 10) < t * t"
      using t by (intro mult_strict_mono) simp_all
    then show ?thesis by simp
  qed
  ultimately have v0: "v 0 = 0" by simp
  with a have "v 1 = 0" by simp
  moreover have "i = 0 \<or> i = 1" if "i < 2" for i :: nat
    using that by auto
  ultimately show False using v0 nz by auto
qed

lemma two_patches_corrected_eigenvalue: "eigenvalue 2 (\<lambda>i j. covariance_loops default_config two_patches i j + np_eye i j * (\<bar>- (2 / 10)\<bar> + 1 / 100)) (1 / 100)"
  unfolding eigenvalue_def
proof (intro exI [of _ "\<lambda>i. 1"] conjI allI impI)
  show "\<exists>i<(2::nat). (1::real) \<noteq> 0" by (intro exI [of _ 0]) simp
next
  fix i :: nat
  assume "i < 2"
  then have "i = 0 \<or> i = 1" by auto
  then show "(\<Sum>j<2. (covariance_loops default_config two_patches i j
                + np_eye i j * (\<bar>- (2 / 10)\<bar> + 1 / 100)) * 1) = 1 / 100 * 1"
    by (auto simp add: two_patches_covariance sum_below_two np_eye_def)
qed

theorem covariance_matrix_psd_witness:
  "build_covariance_matrix (\<lambda>n M. - (2 / 10)) default_config [] = Inl ValueError
   \<and> two_patches \<noteq> []
   \<and> \<not> (\<exists>lam. eigenvalue (length two_patches) (covariance_loops default_config two_patches) lam
             \<and> lam < - (2 / 10))
   \<and> (\<exists>C. build_covariance_matrix (\<lambda>n M. - (2 / 10)) default_config two_patches = Inr C
          \<and> eigenvalue (length two_patches) C (1 / 100) \<and> (0::real) \<le> 1 / 100)"
proof -
  have len: "length two_patches = 2" by (simp add: two_patches_def)
  have ne: "two_patches \<noteq> []" by (simp add: two_patches_def)
  have low: "\<forall>lam. eigenvalue (length two_patches) (covariance_loops default_config two_patches) lam
         \<longrightarrow> (\<lambda>n M. - (2 / 10)) (length two_patches)
               (covariance_loops default_config two_patches) \<le> lam"
    using two_patches_lower_bound by (simp add: len)
  have b: "build_covariance_matrix (\<lambda>n M. - (2 / 10)) default_config two_patches
             = Inr (\<lambda>i j. covariance_loops default_config two_patches i j
                            + np_eye i j * (\<bar>- (2 / 10)\<bar> + 1 / 100))"
    using ne by (simp add: build_covariance_matrix_def Let_def)
  from covariance_matrix_psd [OF low] ne b two_patches_corrected_eigenvalue
  have "\<forall>lam. eigenvalue (length two_patches)
                 (\<lambda>i j. covariance_loops default_config two_patches i j
                            + np_eye i j * (\<bar>- (2 / 10)\<bar> + 1 / 100)) lam \<longrightarrow> 0 \<le> lam"
    by auto
  with two_patches_corrected_eigenvalue
  have "eigenvalue (length two_patches)
          (\<lambda>i j. covariance_loops default_config two_patches i j
                     + np_eye i j * (\<bar>- (2 / 10)\<bar> + 1 / 100)) (1 / 100)
        \<and> (0::real) \<le> 1 / 100"
    by (simp add: len)
  moreover have "\<not> (\<exists>lam. eigenvalue (length two_patches)
                         (covariance_loops default_config two_patches) lam \<and> lam < - (2 / 10))"
    using low by (auto simp add: not_less)
  moreover have "build_covariance_matrix (\<lambda>n M. - (2 / 10)) default_config [] = Inl ValueError"
    using covariance_matrix_psd [of "[]" default_config "\<lambda>n M. - (2 / 10)"]
    by (simp add: eigenvalue_def)
  ultimately show ?thesis using ne b by blast
qed

section \<open>The annual cycle\<close>

lemma bind_err_Inr:
  "bind_err m f = Inr y \<longleftrightarrow> (\<exists>x. m = Inr x \<and> f x = Inr y)"
  by (cases m) (simp_all add: bind_err_def)

lemma for_bands_post:
  assumes "for_bands f s bs = Inr (s', bs')"
    and "\<And>s b s' b'. f s b = Inr (s', b') \<Longrightarrow> Q b'"
  shows "\<forall>b\<in>set bs'. Q b"
  using assms(1)
proof (induction bs arbitrary: s s' bs')
  case Nil
  then show ?case by simp
next
  case (Cons b bs)
  then show ?case
    by (auto split: sum.splits prod.splits dest: assms(2))
qed

lemma for_bands_pre:
  assumes "for_bands f s bs = Inr r"
    and "\<And>s b r. f s b = Inr r \<Longrightarrow> P b"
  shows "\<forall>b\<in>set bs. P b"
  using assms(1)
proof (induction bs arbitrary: s r)
  case Nil
  then show ?case by simp
next
  case (Cons b bs)
  then show ?case
    by (auto split: sum.splits prod.splits dest: assms(2))
qed

lemma for_bands_map:
  assumes "for_bands f s bs = Inr (s', bs')"
    and "\<And>s b s' b'. f s b = Inr (s', b') \<Longrightarrow> g b' = g b"
  shows "map g bs' = map g bs"
  using assms(1)
proof (induction bs arbitrary: s s' bs')
  case Nil
  then show ?case by simp
next
  case (Cons b bs)
  then show ?case
    by (auto split: sum.splits prod.splits dest: assms(2))
qed

lemma for_bands_inv:
  assumes "for_bands f s bs = Inr (s', bs')"
    and "I s" and "\<forall>b\<in>set bs. P b"
    and "\<And>s b s' b'. f s b = Inr (s', b') \<Longrightarrow> I s \<Longrightarrow> P b \<Longrightarrow> I s'"
  shows "I s'"
  using assms(1,2,3)
proof (induction bs arbitrary: s s' bs')
  case Nil
  then show ?case by simp
next
  case (Cons b bs)
  from Cons.prems(1) obtain s1 b1 s2 bs2 where
    f: "f s b = Inr (s1, b1)" and r: "for_bands f s1 bs = Inr (s2, bs2)" and e: "s' = s2"
    by (auto split: sum.splits prod.splits)
  from assms(4) [OF f] Cons.prems have "I s1" by simp
  from Cons.IH [OF r this] Cons.prems e show ?case by simp
qed


lemma rng_binomial_Inr: "rng_binomial D k n p = Inr r \<Longrightarrow> 0 \<le> n \<and> 0 \<le> fst r"
  by (auto simp add: rng_binomial_def split: if_splits)

lemma dispersal_band_size:
  "dispersal_band D p sf mag k b = Inr (k', b') \<Longrightarrow> size_b b' = size_b b"
  by (auto simp add: dispersal_band_def rng_random_def Let_def)

lemma decision_band_size:
  "decision_band D p n k b = Inr (k', b') \<Longrightarrow> size_b b' = size_b b"
  by (auto simp add: decision_band_def split: sum.splits)

lemma invest_in_monument_size:
  "invest_in_monument D b r k = (a, b', k') \<Longrightarrow> size_b b' = size_b b"
  by (auto simp add: invest_in_monument_def rng_random_def Let_def split: if_splits)

lemma invest_in_monument_nonneg:
  assumes "invest_in_monument D b r k = (a, b', k')"
    and "0 \<le> size_b b" and "0 \<le> r" and "0 \<le> random_at D k"
  shows "0 \<le> a"
proof (cases "resources b < 3 / 10")
  case True
  with assms(1) show ?thesis by (simp add: invest_in_monument_def)
next
  case False
  then have "0 \<le> resources b" by simp
  moreover from False assms(1)
  have "a = of_int (size_b b) * r * resources b * (8 / 10 + 4 / 10 * random_at D k)"
    by (auto simp add: invest_in_monument_def rng_random_def Let_def)
  ultimately show ?thesis using assms(2-4) by simp
qed

lemma acquire_exotic_size:
  "acquire_exotic D b c k = Inr (x, b', k') \<Longrightarrow> size_b b' = size_b b"
  by (auto simp add: acquire_exotic_def rng_random_def py_div_def Let_def split: if_splits)

lemma maybe_form_obligation_size:
  "maybe_form_obligation D site k b = Inr (k', b') \<Longrightarrow> size_b b' = size_b b"
  by (auto simp add: maybe_form_obligation_def form_obligation_def rng_random_def rng_choice_def
      Let_def split: if_splits)

lemma add_attending_band_level:
  "monument_level (add_attending_band site b) = monument_level site"
  by (simp add: add_attending_band_def)

lemma aggregation_band_effect:
  assumes "aggregation_band D p sf mag (site, k, tc) b = Inr ((site', k', tc'), b')"
  shows "size_b b' = size_b b \<and> monument_level site' = monument_level site
         \<and> (0 \<le> size_b b \<and> 0 \<le> C_signal (costs p) \<and> (\<forall>j. 0 \<le> random_at D j)
              \<longrightarrow> tc \<le> tc')"
proof (cases "strategy b = AGGREGATOR")
  case False
  with assms show ?thesis by (auto simp add: aggregation_band_def Let_def)
next
  case True
  define b2 where "b2 = b\<lparr>resources := resources b -
      min (calculate_travel_cost b (location site) (5 / 10000)) (resources b * (5 / 10)),
      aggregation_history := aggregation_history b @ [True]\<rparr>"
  define site1 where "site1 = add_attending_band site
     (b\<lparr>resources := resources b -
      min (calculate_travel_cost b (location site) (5 / 10000)) (resources b * (5 / 10))\<rparr>)"
  obtain a b3 k1 where inv: "invest_in_monument D b2 (C_signal (costs p)) k = (a, b3, k1)"
    by (cases "invest_in_monument D b2 (C_signal (costs p)) k") auto
  from assms True inv obtain x b4 k2 where
    acq: "acquire_exotic D b3 (1 / 10) k1 = Inr (x, b4, k2)"
    and mf: "maybe_form_obligation D site1 k2 b4 = Inr (k', b')"
    and st: "site' = site1" and tot: "tc' = tc + a"
    by (auto simp add: aggregation_band_def Let_def b2_def site1_def split: sum.splits)
  have "size_b b2 = size_b b" by (simp add: b2_def)
  with invest_in_monument_size [OF inv] acquire_exotic_size [OF acq]
    maybe_form_obligation_size [OF mf]
  have sz: "size_b b' = size_b b" by simp
  have lv: "monument_level site' = monument_level site"
    by (simp add: st site1_def add_attending_band_level)
  have "tc \<le> tc'"
    if "0 \<le> size_b b" "0 \<le> C_signal (costs p)" "\<forall>j. 0 \<le> random_at D j"
    using invest_in_monument_nonneg [OF inv] that tot by (simp add: b2_def)
  with sz lv show ?thesis by blast
qed

lemma mortality_band_pre:
  "mortality_band D p k b = Inr r \<Longrightarrow> 0 \<le> size_b b"
  by (auto simp add: mortality_band_def suffer_shortfall_def Let_def
      split: if_splits sum.splits prod.splits dest: rng_binomial_Inr)

lemma reproduction_band_pre:
  "reproduction_band D p site k b = Inr r \<Longrightarrow> 0 \<le> size_b b"
  by (auto simp add: reproduction_band_def reproduce_def Let_def
      split: sum.splits prod.splits dest: rng_binomial_Inr)

lemma reproduction_band_floor:
  assumes "reproduction_band D p site k b = Inr (k', b')"
    and "min_band_size (population p) \<le> max_band_size (population p)"
  shows "min_band_size (population p) \<le> size_b b'"
  using assms
  by (auto simp add: reproduction_band_def reproduce_def Let_def
      split: sum.splits prod.splits if_splits)


lemma shortfall_determination_frame:
  assumes "shortfall_determination D s = Inr s'"
  shows "bands s' = bands s \<and> aggregation_site s' = aggregation_site s
         \<and> params s' = params s \<and> yearly_states s' = yearly_states s"
  using assms
  by (auto simp add: shortfall_determination_def Let_def split: if_splits sum.splits prod.splits)

lemma run_dispersal_season_frame:
  assumes "run_dispersal_season D s = Inr s'"
  shows "map size_b (bands s') = map size_b (bands s)
         \<and> aggregation_site s' = aggregation_site s
         \<and> params s' = params s \<and> yearly_states s' = yearly_states s"
proof -
  from assms obtain k bs where
    l: "for_bands (dispersal_band D (params s) (in_shortfall s) (shortfall_magnitude s))
          (rng s) (bands s) = Inr (k, bs)"
    and s': "s' = s\<lparr>rng := k, bands := bs\<rparr>"
    by (auto simp add: run_dispersal_season_def split: sum.splits)
  from for_bands_map [OF l, of size_b] dispersal_band_size
  have "map size_b bs = map size_b (bands s)" by blast
  with s' show ?thesis by simp
qed

lemma run_strategy_decisions_frame:
  assumes "run_strategy_decisions D s = Inr s'"
  shows "map size_b (bands s') = map size_b (bands s)
         \<and> aggregation_site s' = aggregation_site s
         \<and> params s' = params s \<and> yearly_states s' = yearly_states s"
proof -
  from assms obtain k bs where
    l: "for_bands (decision_band D (params s)
            (of_int (max 5 (n_attending (aggregation_site s))))) (rng s) (bands s) = Inr (k, bs)"
    and s': "s' = s\<lparr>rng := k, bands := bs\<rparr>"
    by (auto simp add: run_strategy_decisions_def Let_def split: sum.splits)
  from for_bands_map [OF l, of size_b] decision_band_size
  have "map size_b bs = map size_b (bands s)" by blast
  with s' show ?thesis by simp
qed

lemma run_aggregation_season_frame:
  assumes "run_aggregation_season D s = Inr s'"
  shows "map size_b (bands s') = map size_b (bands s)
         \<and> params s' = params s \<and> yearly_states s' = yearly_states s
         \<and> in_shortfall s' = in_shortfall s
         \<and> ((\<forall>b\<in>set (bands s). 0 \<le> size_b b) \<and> 0 \<le> C_signal (costs (params s))
               \<and> (\<forall>j. 0 \<le> random_at D j)
             \<longrightarrow> monument_level (aggregation_site s) \<le> monument_level (aggregation_site s'))"
proof -
  let ?f = "aggregation_band D (params s) (in_shortfall s) (shortfall_magnitude s)"
  let ?s0 = "(reset_annual_state (aggregation_site s), rng s, 0::real)"
  from assms obtain site k tc bs where
    l: "for_bands ?f ?s0 (bands s) = Inr ((site, k, tc), bs)"
    and s': "s' = s\<lparr>rng := k, bands := bs,
                     aggregation_site := record_construction site tc\<rparr>"
    by (auto simp add: run_aggregation_season_def split: sum.splits)
  have sz: "map size_b bs = map size_b (bands s)"
  proof (rule for_bands_map [OF l])
    fix st b st' b'
    assume "?f st b = Inr (st', b')"
    then show "size_b b' = size_b b"
      using aggregation_band_effect [of D "params s" "in_shortfall s" "shortfall_magnitude s"
          "fst st" "fst (snd st)" "snd (snd st)" b "fst st'" "fst (snd st')" "snd (snd st')" b']
      by simp
  qed
  have lv: "monument_level (fst (site, k, tc)) = monument_level (aggregation_site s)"
  proof (rule for_bands_inv [OF l, where P = "\<lambda>b. True"
        and I = "\<lambda>st. monument_level (fst st) = monument_level (aggregation_site s)"])
    show "monument_level (fst ?s0) = monument_level (aggregation_site s)"
      by (simp add: reset_annual_state_def)
    show "\<forall>b\<in>set (bands s). True" by simp
  next
    fix st b st' b'
    assume "?f st b = Inr (st', b')"
      and "monument_level (fst st) = monument_level (aggregation_site s)"
    then show "monument_level (fst st') = monument_level (aggregation_site s)"
      using aggregation_band_effect [of D "params s" "in_shortfall s" "shortfall_magnitude s"
          "fst st" "fst (snd st)" "snd (snd st)" b "fst st'" "fst (snd st')" "snd (snd st')" b']
      by simp
  qed
  have tot: "0 \<le> snd (snd (site, k, tc))"
    if h: "\<forall>b\<in>set (bands s). 0 \<le> size_b b" "0 \<le> C_signal (costs (params s))"
      "\<forall>j. 0 \<le> random_at D j"
  proof (rule for_bands_inv [OF l, where P = "\<lambda>b. 0 \<le> size_b b"
        and I = "\<lambda>st. 0 \<le> snd (snd st)"])
    show "0 \<le> snd (snd ?s0)" by simp
    show "\<forall>b\<in>set (bands s). 0 \<le> size_b b" by (rule h(1))
  next
    fix st b st' b'
    assume "?f st b = Inr (st', b')" and "0 \<le> snd (snd st)" and "0 \<le> size_b b"
    then show "0 \<le> snd (snd st')"
      using aggregation_band_effect [of D "params s" "in_shortfall s" "shortfall_magnitude s"
          "fst st" "fst (snd st)" "snd (snd st)" b "fst st'" "fst (snd st')" "snd (snd st')" b']
        h(2,3)
      by simp
  qed
  from sz lv tot s' show ?thesis
    by (auto simp add: record_construction_def)
qed

lemma apply_shortfall_mortality_frame:
  assumes "apply_shortfall_mortality D s = Inr s'"
  shows "aggregation_site s' = aggregation_site s
         \<and> params s' = params s \<and> yearly_states s' = yearly_states s
         \<and> (if in_shortfall s then \<forall>b\<in>set (bands s). 0 \<le> size_b b else s' = s)"
proof (cases "in_shortfall s")
  case False
  with assms show ?thesis by (simp add: apply_shortfall_mortality_def)
next
  case True
  with assms obtain k bs where
    l: "for_bands (mortality_band D (params s)) (rng s) (bands s) = Inr (k, bs)"
    and s': "s' = s\<lparr>rng := k, bands := bs\<rparr>"
    by (auto simp add: apply_shortfall_mortality_def split: sum.splits)
  from for_bands_pre [OF l, of "\<lambda>b. 0 \<le> size_b b"] mortality_band_pre
  have "\<forall>b\<in>set (bands s). 0 \<le> size_b b" by blast
  with True s' show ?thesis by simp
qed

lemma apply_reproduction_frame:
  assumes "apply_reproduction D s = Inr s'"
  shows "aggregation_site s' = aggregation_site s
         \<and> params s' = params s \<and> yearly_states s' = yearly_states s
         \<and> (\<forall>b\<in>set (bands s). 0 \<le> size_b b)
         \<and> (min_band_size (population (params s)) \<le> max_band_size (population (params s))
             \<longrightarrow> (\<forall>b\<in>set (bands s'). min_band_size (population (params s)) \<le> size_b b))"
proof -
  from assms obtain k bs where
    l: "for_bands (reproduction_band D (params s) (aggregation_site s)) (rng s) (bands s)
          = Inr (k, bs)"
    and s': "s' = s\<lparr>rng := k, bands := bs\<rparr>"
    by (auto simp add: apply_reproduction_def split: sum.splits)
  from for_bands_pre [OF l, of "\<lambda>b. 0 \<le> size_b b"] reproduction_band_pre
  have pre: "\<forall>b\<in>set (bands s). 0 \<le> size_b b" by blast
  have "\<forall>b\<in>set bs. min_band_size (population (params s)) \<le> size_b b"
    if "min_band_size (population (params s)) \<le> max_band_size (population (params s))"
    using for_bands_post [OF l, of "\<lambda>b. min_band_size (population (params s)) \<le> size_b b"]
      reproduction_band_floor that by blast
  with pre s' show ?thesis by simp
qed

lemma record_state_frame:
  assumes "record_state s = (st, s')"
  shows "bands s' = bands s \<and> aggregation_site s' = aggregation_site s
         \<and> params s' = params s \<and> yearly_states s' = yearly_states s @ [st]
         \<and> ys_monument_level st = monument_level (aggregation_site s)
         \<and> ys_total_population st = sum_list (map size_b (bands s))
         \<and> ys_n_bands st = int (length (bands s))"
  using assms by (auto simp add: record_state_def Let_def)


lemma sizes_of_map:
  assumes "map size_b bs' = map size_b bs" and "\<forall>b\<in>set bs'. 0 \<le> size_b b"
  shows "\<forall>b\<in>set bs. 0 \<le> size_b b"
proof -
  from assms(2) have "\<forall>x\<in>set (map size_b bs'). 0 \<le> x" by simp
  then have "\<forall>x\<in>set (map size_b bs). 0 \<le> x" by (simp only: assms(1))
  then show ?thesis by simp
qed

lemma step_effect:
  assumes "step D s = Inr (st, s')"
  shows "params s' = params s \<and> yearly_states s' = yearly_states s @ [st]
         \<and> ys_monument_level st = monument_level (aggregation_site s')
         \<and> ys_total_population st = sum_list (map size_b (bands s'))
         \<and> ys_n_bands st = int (length (bands s'))
         \<and> (\<forall>b\<in>set (bands s). 0 \<le> size_b b)
         \<and> (0 \<le> C_signal (costs (params s)) \<and> (\<forall>j. 0 \<le> random_at D j)
              \<longrightarrow> monument_level (aggregation_site s) \<le> monument_level (aggregation_site s'))
         \<and> (min_band_size (population (params s)) \<le> max_band_size (population (params s))
              \<longrightarrow> (\<forall>b\<in>set (bands s'). min_band_size (population (params s)) \<le> size_b b))"
proof -
  from assms obtain s1 where p1: "shortfall_determination D s = Inr s1"
    and r1: "bind_err (run_dispersal_season D s1) (\<lambda>s2.
      bind_err (run_strategy_decisions D s2) (\<lambda>s3.
      bind_err (run_aggregation_season D s3) (\<lambda>s4.
      bind_err (apply_shortfall_mortality D s4) (\<lambda>s5.
      bind_err (apply_reproduction D s5) (\<lambda>s6.
        let (state, s7) = record_state s6
        in Inr (state, s7\<lparr>year := year s7 + 1\<rparr>)))))) = Inr (st, s')"
    unfolding step_def by (subst (asm) bind_err_Inr) blast
  from r1 obtain s2 where p2: "run_dispersal_season D s1 = Inr s2"
    and r2: "bind_err (run_strategy_decisions D s2) (\<lambda>s3.
      bind_err (run_aggregation_season D s3) (\<lambda>s4.
      bind_err (apply_shortfall_mortality D s4) (\<lambda>s5.
      bind_err (apply_reproduction D s5) (\<lambda>s6.
        let (state, s7) = record_state s6
        in Inr (state, s7\<lparr>year := year s7 + 1\<rparr>))))) = Inr (st, s')"
    by (subst (asm) bind_err_Inr) blast
  from r2 obtain s3 where p3: "run_strategy_decisions D s2 = Inr s3"
    and r3: "bind_err (run_aggregation_season D s3) (\<lambda>s4.
      bind_err (apply_shortfall_mortality D s4) (\<lambda>s5.
      bind_err (apply_reproduction D s5) (\<lambda>s6.
        let (state, s7) = record_state s6
        in Inr (state, s7\<lparr>year := year s7 + 1\<rparr>)))) = Inr (st, s')"
    by (subst (asm) bind_err_Inr) blast
  from r3 obtain s4 where p4: "run_aggregation_season D s3 = Inr s4"
    and r4: "bind_err (apply_shortfall_mortality D s4) (\<lambda>s5.
      bind_err (apply_reproduction D s5) (\<lambda>s6.
        let (state, s7) = record_state s6
        in Inr (state, s7\<lparr>year := year s7 + 1\<rparr>))) = Inr (st, s')"
    by (subst (asm) bind_err_Inr) blast
  from r4 obtain s5 where p5: "apply_shortfall_mortality D s4 = Inr s5"
    and r5: "bind_err (apply_reproduction D s5) (\<lambda>s6.
        let (state, s7) = record_state s6
        in Inr (state, s7\<lparr>year := year s7 + 1\<rparr>)) = Inr (st, s')"
    by (subst (asm) bind_err_Inr) blast
  from r5 obtain s6 where p6: "apply_reproduction D s5 = Inr s6"
    and r6: "(let (state, s7) = record_state s6
        in Inr (state, s7\<lparr>year := year s7 + 1\<rparr>)) = (Inr (st, s') :: py_error + _)"
    by (subst (asm) bind_err_Inr) blast
  obtain st7 s7 where p7': "record_state s6 = (st7, s7)"
    by (cases "record_state s6") auto
  with r6 have p7: "record_state s6 = (st, s7)" and s': "s' = s7\<lparr>year := year s7 + 1\<rparr>"
    by simp_all
  note f1 = shortfall_determination_frame [OF p1]
    and f2 = run_dispersal_season_frame [OF p2]
    and f3 = run_strategy_decisions_frame [OF p3]
    and f4 = run_aggregation_season_frame [OF p4]
    and f5 = apply_shortfall_mortality_frame [OF p5]
    and f6 = apply_reproduction_frame [OF p6]
    and f7 = record_state_frame [OF p7]
  have prm: "params s' = params s"
    using f1 f2 f3 f4 f5 f6 f7 s' by simp
  have ys: "yearly_states s' = yearly_states s @ [st]"
    using f1 f2 f3 f4 f5 f6 f7 s' by simp
  have site: "aggregation_site s' = aggregation_site s4"
    using f5 f6 f7 s' by simp
  have lvl: "ys_monument_level st = monument_level (aggregation_site s')"
    using f7 s' by simp
  have pop: "ys_total_population st = sum_list (map size_b (bands s'))"
    "ys_n_bands st = int (length (bands s'))"
    using f7 s' by simp_all
  have sz3: "map size_b (bands s3) = map size_b (bands s)"
    using f1 f2 f3 by simp
  have sz4: "map size_b (bands s4) = map size_b (bands s)"
    using sz3 f4 by simp
  have "\<forall>b\<in>set (bands s4). 0 \<le> size_b b"
  proof (cases "in_shortfall s4")
    case True
    with f5 show ?thesis by simp
  next
    case False
    with f5 have "s5 = s4" by simp
    with f6 show ?thesis by simp
  qed
  from sizes_of_map [OF sz4 this] have pre: "\<forall>b\<in>set (bands s). 0 \<le> size_b b" .
  have pre3: "\<forall>b\<in>set (bands s3). 0 \<le> size_b b"
    using sizes_of_map [OF sz3 [symmetric] pre] .
  have p3eq: "params s3 = params s" "aggregation_site s3 = aggregation_site s"
    using f1 f2 f3 by simp_all
  have mono: "monument_level (aggregation_site s) \<le> monument_level (aggregation_site s')"
    if "0 \<le> C_signal (costs (params s))" "\<forall>j. 0 \<le> random_at D j"
    using f4 pre3 that p3eq site by simp
  have p5eq: "params s5 = params s"
    using f1 f2 f3 f4 f5 by simp
  have b': "bands s' = bands s6" using f7 s' by simp
  have floor: "\<forall>b\<in>set (bands s'). min_band_size (population (params s)) \<le> size_b b"
    if "min_band_size (population (params s)) \<le> max_band_size (population (params s))"
    using f6 that p5eq b' by simp
  from prm ys lvl pop pre mono floor show ?thesis by blast
qed

lemma run_years_params:
  "run_years D n s = Inr s' \<Longrightarrow> params s' = params s"
proof (induction n arbitrary: s)
  case 0
  then show ?case by simp
next
  case (Suc n)
  from Suc.prems obtain st s1 where st: "step D s = Inr (st, s1)"
    and r: "run_years D n s1 = Inr s'"
    by (auto split: sum.splits prod.splits)
  from Suc.IH [OF r] step_effect [OF st] show ?case by simp
qed

lemma sorted_le_last:
  assumes "sorted xs" and "x \<in> set xs"
  shows "x \<le> last (xs :: real list)"
proof -
  from assms(2) obtain i where i: "i < length xs" "xs ! i = x"
    by (auto simp add: in_set_conv_nth)
  then have ne: "xs \<noteq> []" by auto
  from i have "i \<le> length xs - 1" by simp
  from sorted_nth_mono [OF assms(1) this] ne i show ?thesis
    by (simp add: last_conv_nth)
qed

lemma step_levels_ok:
  assumes "step D s = Inr (st, s')" and "levels_ok s"
    and "0 \<le> C_signal (costs (params s))" and "\<forall>j. 0 \<le> random_at D j"
  shows "levels_ok s'"
proof -
  note e = step_effect [OF assms(1)]
  from e assms(3,4) have m: "monument_level (aggregation_site s) \<le> ys_monument_level st"
    by simp
  have "x \<le> ys_monument_level st"
    if x: "x \<in> set (map ys_monument_level (yearly_states s))" for x
  proof -
    from x have ne: "yearly_states s \<noteq> []" by auto
    with assms(2) have "last (map ys_monument_level (yearly_states s))
        = monument_level (aggregation_site s)"
      by (simp add: levels_ok_def last_map)
    moreover from assms(2) x have "x \<le> last (map ys_monument_level (yearly_states s))"
      by (intro sorted_le_last) (simp_all add: levels_ok_def)
    ultimately show ?thesis using m by simp
  qed
  with assms(2) e show ?thesis
    by (simp add: levels_ok_def sorted_append)
qed

lemma run_years_levels_ok:
  assumes "run_years D n s = Inr s'" and "levels_ok s"
    and "0 \<le> C_signal (costs (params s))" and "\<forall>j. 0 \<le> random_at D j"
  shows "levels_ok s'"
  using assms(1,2,3)
proof (induction n arbitrary: s)
  case 0
  then show ?case by simp
next
  case (Suc n)
  from Suc.prems(1) obtain st s1 where st: "step D s = Inr (st, s1)"
    and r: "run_years D n s1 = Inr s'"
    by (auto split: sum.splits prod.splits)
  from step_levels_ok [OF st Suc.prems(2,3) assms(4)] have "levels_ok s1" .
  moreover from step_effect [OF st] Suc.prems(3) have "0 \<le> C_signal (costs (params s1))"
    by simp
  ultimately show ?case using Suc.IH [OF r] by simp
qed

text \<open>
  Claim C3, as the code has it. In every run that starts with no recorded state, with a
  generator whose draws lie in their supports and a non-negative signalling cost
  \<open>C_signal\<close>, the monument level of each recorded snapshot is at least that of the
  snapshot before it. A band of negative size, whose investment would be negative, never
  gets as far as a snapshot: its \<open>binomial\<close> draw raises in the same year. The
  condition on \<open>C_signal\<close> is needed: no code checks the parameter, and the investment
  of a band is its size times \<open>C_signal\<close> times its resources.
\<close>

theorem monument_level_nondecreasing:
  assumes "valid_draws D" and "0 \<le> C_signal (costs (params s))"
    and "yearly_states s = []" and "run_years D n s = Inr s'"
    and "Suc i < length (yearly_states s')"
  shows "ys_monument_level (yearly_states s' ! i)
           \<le> ys_monument_level (yearly_states s' ! Suc i)"
proof -
  from assms(1) have d: "\<forall>j. 0 \<le> random_at D j" by (simp add: valid_draws_def)
  from assms(3) have "levels_ok s" by (simp add: levels_ok_def)
  from run_years_levels_ok [OF assms(4) this assms(2) d]
  have "sorted (map ys_monument_level (yearly_states s'))" by (simp add: levels_ok_def)
  from sorted_nth_mono [OF this, of i "Suc i"] assms(5) show ?thesis by simp
qed

lemma sum_list_floor:
  "\<forall>b\<in>set bs. m \<le> size_b b \<Longrightarrow> int (length bs) * m \<le> sum_list (map size_b bs)"
  by (induction bs) (auto simp add: algebra_simps)

text \<open>
  Claim C7, as the code has it. For a parameter set with
  \<open>min_band_size \<le> max_band_size\<close>, after each completed year of a run, which is the
  moment its snapshot is recorded, every band has at least \<open>min_band_size\<close> members; the
  snapshot records the number of bands and their total population at that moment, so its
  population is at least \<open>min_band_size\<close> per band. The condition on the two bounds is
  needed: no code checks them, and \<open>_apply_reproduction\<close> sets a size above
  \<open>max_band_size\<close> to \<open>max_band_size\<close>.
\<close>

theorem band_size_floor_at_snapshot:
  assumes "min_band_size (population (params s)) \<le> max_band_size (population (params s))"
    and "run_years D (Suc n) s = Inr s'"
  shows "(\<forall>b\<in>set (bands s'). min_band_size (population (params s)) \<le> size_b b)
         \<and> yearly_states s' \<noteq> []
         \<and> ys_n_bands (last (yearly_states s')) = int (length (bands s'))
         \<and> ys_total_population (last (yearly_states s')) = sum_list (map size_b (bands s'))
         \<and> ys_n_bands (last (yearly_states s')) * min_band_size (population (params s))
             \<le> ys_total_population (last (yearly_states s'))"
  using assms
proof (induction n arbitrary: s)
  case 0
  from "0.prems"(2) obtain st where st: "step D s = Inr (st, s')"
    by (auto split: sum.splits prod.splits)
  note e = step_effect [OF st]
  from e "0.prems"(1)
  have fl: "\<forall>b\<in>set (bands s'). min_band_size (population (params s)) \<le> size_b b"
    by simp
  from e have "yearly_states s' \<noteq> []" "last (yearly_states s') = st" by simp_all
  with e fl sum_list_floor [OF fl] show ?case by simp
next
  case (Suc n)
  from Suc.prems(2) obtain st s1 where st: "step D s = Inr (st, s1)"
    and r: "run_years D (Suc n) s1 = Inr s'"
    by (auto split: sum.splits prod.splits)
  from step_effect [OF st] have p: "params s1 = params s" by simp
  from Suc.prems(1) have "min_band_size (population (params s1))
      \<le> max_band_size (population (params s1))"
    by (simp only: p)
  from Suc.IH [OF this r] show ?case unfolding p .
qed


lemma logistic_pos: "0 < 1 / (1 + exp (x::real))" "0 < 1 + exp x"
  by (simp_all add: add_pos_pos)

lemmas simulation_defs = step_def bind_err_def shortfall_determination_def generate_shortfall_def
  run_dispersal_season_def dispersal_band_def run_strategy_decisions_def decision_band_def
  decide_strategy_def memory_adjust_def run_aggregation_season_def aggregation_band_def
  maybe_form_obligation_def apply_shortfall_mortality_def mortality_band_def
  apply_reproduction_def reproduction_band_def record_state_def
  calculate_travel_cost_def invest_in_monument_def acquire_exotic_def form_obligation_def
  call_obligation_def reproduce_def suffer_shortfall_def add_attending_band_def
  record_construction_def reset_annual_state_def n_attending_def create_aggregation_site_def
  rng_random_def rng_normal_def rng_binomial_def rng_choice_def py_div_def np_clip_def np_mean_def
  py_int_def shortfall_duration_def W_aggregator_def W_independent_def cooperation_benefit_def
  C_total_def default_parameters_def default_costs_def default_vulnerability_def
  default_cooperation_def default_environment_def default_population_def
  new_simulation_def new_band_def

lemma one_band_two_years:
  "\<exists>s'. run_years low_draws 2 one_band_simulation = Inr s'
        \<and> map ys_monument_level (yearly_states s') = [261 / 625, 12582 / 15625]
        \<and> map size_b (bands s') = [5]"
  by (simp add: one_band_simulation_def simulation_defs low_draws_def logistic_pos Let_def
      numeral_2_eq_2)

lemma valid_low_draws: "valid_draws low_draws"
  by (simp add: valid_draws_def low_draws_def)

theorem monument_level_nondecreasing_witness:
  "valid_draws low_draws
   \<and> 0 \<le> C_signal (costs (params one_band_simulation))
   \<and> yearly_states one_band_simulation = []
   \<and> (\<exists>s'. run_years low_draws 2 one_band_simulation = Inr s'
          \<and> Suc 0 < length (yearly_states s')
          \<and> map ys_monument_level (yearly_states s') = [261 / 625, 12582 / 15625]
          \<and> ys_monument_level (yearly_states s' ! 0)
               \<le> ys_monument_level (yearly_states s' ! Suc 0))"
proof -
  have c: "0 \<le> C_signal (costs (params one_band_simulation))"
    by (simp add: one_band_simulation_def new_simulation_def default_parameters_def
        default_costs_def)
  have e: "yearly_states one_band_simulation = []"
    by (simp add: one_band_simulation_def new_simulation_def)
  obtain s' where r: "run_years low_draws 2 one_band_simulation = Inr s'"
    and l: "map ys_monument_level (yearly_states s') = [261 / 625, 12582 / 15625]"
    using one_band_two_years by auto
  from l have "length (map ys_monument_level (yearly_states s')) = 2" by simp
  then have n: "Suc 0 < length (yearly_states s')" by simp
  from monument_level_nondecreasing [OF valid_low_draws c e r n] valid_low_draws c e r n l
  show ?thesis by (intro conjI exI [of _ s'])
qed

theorem band_size_floor_at_snapshot_witness:
  "min_band_size (population (params one_band_simulation))
     \<le> max_band_size (population (params one_band_simulation))
   \<and> (\<exists>s'. run_years low_draws (Suc 1) one_band_simulation = Inr s'
          \<and> map size_b (bands s') = [5]
          \<and> ys_n_bands (last (yearly_states s')) = 1
          \<and> 5 \<le> ys_total_population (last (yearly_states s')))"
proof -
  have m: "min_band_size (population (params one_band_simulation))
     \<le> max_band_size (population (params one_band_simulation))"
    by (simp add: one_band_simulation_def new_simulation_def default_parameters_def
        default_population_def)
  have v: "min_band_size (population (params one_band_simulation)) = 5"
    by (simp add: one_band_simulation_def new_simulation_def default_parameters_def
        default_population_def)
  obtain s' where r: "run_years low_draws (Suc 1) one_band_simulation = Inr s'"
    and b: "map size_b (bands s') = [5]"
    using one_band_two_years by (auto simp add: numeral_2_eq_2)
  from b have len: "length (bands s') = 1"
    by (metis length_map length_Cons list.size(3) One_nat_def)
  from band_size_floor_at_snapshot [OF m r] len
  have "ys_n_bands (last (yearly_states s')) = 1"
    "5 \<le> ys_total_population (last (yearly_states s'))"
    by (simp_all add: v)
  with m r b show ?thesis by (intro conjI exI [of _ s'])
qed

subsection \<open>Runs outside the range of the parameters\<close>

lemma valid_on_site_draws: "valid_draws on_site_draws"
  by (simp add: valid_draws_def on_site_draws_def)

lemma init_negative_signal:
  "init on_site_draws negative_signal_parameters
     = Inr ((new_simulation negative_signal_parameters
               [new_band 0 5 (250, 250) AGGREGATOR (4 / 10)])\<lparr>rng := 5\<rparr>)"
  by (simp add: init_def create_bands_def rng_uniform_def rng_integers_def rng_random_def
      negative_signal_parameters_def default_parameters_def default_population_def
      default_environment_def on_site_draws_def new_simulation_def new_band_def
      create_aggregation_site_def Let_def)

lemma init_inverted_bounds:
  "init on_site_draws inverted_bounds_parameters
     = Inr ((new_simulation inverted_bounds_parameters
               [new_band 0 12 (250, 250) AGGREGATOR (4 / 10)])\<lparr>rng := 5\<rparr>)"
  by (simp add: init_def create_bands_def rng_uniform_def rng_integers_def rng_random_def
      inverted_bounds_parameters_def default_parameters_def default_population_def
      default_environment_def on_site_draws_def new_simulation_def new_band_def
      create_aggregation_site_def Let_def)

text \<open>
  The claim's "for every run" fails: with \<open>C_signal = -0.18\<close> the one band that
  the constructor builds, an aggregator of five on the site, invests a negative amount
  in each of the first two years, and the second snapshot records a monument level
  below that of the first.
\<close>

theorem monument_level_decreases_with_negative_signal_cost:
  "valid_draws on_site_draws
   \<and> C_signal (costs negative_signal_parameters) = - (18 / 100)
   \<and> (\<exists>s0 s'. init on_site_draws negative_signal_parameters = Inr s0
          \<and> yearly_states s0 = []
          \<and> map size_b (bands s0) = [5]
          \<and> run_years on_site_draws 2 s0 = Inr s'
          \<and> map ys_monument_level (yearly_states s')
               = [- (5157 / 15625), - (9846 / 15625)]
          \<and> ys_monument_level (yearly_states s' ! Suc 0)
               < ys_monument_level (yearly_states s' ! 0))"
proof -
  let ?s0 = "(new_simulation negative_signal_parameters
               [new_band 0 5 (250, 250) AGGREGATOR (4 / 10)])\<lparr>rng := 5\<rparr>"
  have "\<exists>s'. run_years on_site_draws 2 ?s0 = Inr s'
          \<and> map ys_monument_level (yearly_states s')
               = [- (5157 / 15625), - (9846 / 15625)]"
    by (simp add: negative_signal_parameters_def simulation_defs on_site_draws_def
        logistic_pos Let_def numeral_2_eq_2)
  then obtain s' where r: "run_years on_site_draws 2 ?s0 = Inr s'"
    and l: "map ys_monument_level (yearly_states s')
              = [- (5157 / 15625), - (9846 / 15625)]"
    by auto
  from l have "length (map ys_monument_level (yearly_states s')) = 2" by simp
  then have n: "length (yearly_states s') = 2" by simp
  have "map ys_monument_level (yearly_states s') ! 0 = - (5157 / 15625)"
    "map ys_monument_level (yearly_states s') ! Suc 0 = - (9846 / 15625)"
    unfolding l by simp_all
  with n have d: "ys_monument_level (yearly_states s' ! Suc 0)
      < ys_monument_level (yearly_states s' ! 0)"
    by simp
  have c: "C_signal (costs negative_signal_parameters) = - (18 / 100)"
    by (simp add: negative_signal_parameters_def)
  have e: "yearly_states ?s0 = []" "map size_b (bands ?s0) = [5]"
    by (simp_all add: new_simulation_def new_band_def)
  from valid_on_site_draws c init_negative_signal e r l d show ?thesis
    by (intro conjI exI [of _ ?s0] exI [of _ s'])
qed

text \<open>
  The claim's "for every run" fails: with \<open>min_band_size = 10\<close> and
  \<open>max_band_size = 5\<close> the one band that the constructor builds, of twelve members, is
  above the maximum at the end of the first year and is set to five, below the
  minimum, when the snapshot is recorded.
\<close>

theorem band_size_below_minimum_with_inverted_bounds:
  "min_band_size (population inverted_bounds_parameters) = 10
   \<and> max_band_size (population inverted_bounds_parameters) = 5
   \<and> (\<exists>s0 s'. init on_site_draws inverted_bounds_parameters = Inr s0
          \<and> map size_b (bands s0) = [12]
          \<and> run_years on_site_draws 1 s0 = Inr s'
          \<and> length (yearly_states s') = 1
          \<and> map size_b (bands s') = [5]
          \<and> ys_total_population (last (yearly_states s')) = 5)"
proof -
  let ?s0 = "(new_simulation inverted_bounds_parameters
               [new_band 0 12 (250, 250) AGGREGATOR (4 / 10)])\<lparr>rng := 5\<rparr>"
  have r: "\<exists>s'. run_years on_site_draws 1 ?s0 = Inr s'
          \<and> length (yearly_states s') = 1
          \<and> map size_b (bands s') = [5]
          \<and> ys_total_population (last (yearly_states s')) = 5"
    by (simp add: inverted_bounds_parameters_def simulation_defs on_site_draws_def
        logistic_pos Let_def)
  have m: "min_band_size (population inverted_bounds_parameters) = 10"
    "max_band_size (population inverted_bounds_parameters) = 5"
    by (simp_all add: inverted_bounds_parameters_def)
  have e: "map size_b (bands ?s0) = [12]"
    by (simp add: new_simulation_def new_band_def)
  from r obtain s' where "run_years on_site_draws 1 ?s0 = Inr s'"
    "length (yearly_states s') = 1" "map size_b (bands s') = [5]"
    "ys_total_population (last (yearly_states s')) = 5"
    by auto
  with m init_inverted_bounds e show ?thesis
    by (intro conjI exI [of _ ?s0] exI [of _ s'])
qed

section \<open>The resource level\<close>

lemma ln_two_bounds: "0 \<le> ln (2::real)" "ln (2::real) \<le> 1"
  using ln_le_minus_one [of "2::real"] by simp_all

lemma valid_shortfall_draws: "valid_draws shortfall_draws"
  by (simp add: valid_draws_def shortfall_draws_def)

text \<open>
  Claim C2 fails on the code. \<open>_apply_shortfall_mortality\<close> adds the help received
  from an obligation to the band's resources and does not clamp the sum, where the
  dispersal season and the independents' branch of the aggregation season do. In a
  run of two bands that the constructor builds with resources \<open>0.59\<close>, the second band
  ends the first year, when the snapshot is recorded, with resources \<open>1.012\<close>. The
  stream of the run lies in the supports of its distributions.
\<close>

theorem resources_exceed_one:
  "\<exists>s0 st s'.
      init shortfall_draws two_band_parameters = Inr s0
      \<and> map size_b (bands s0) = [5, 5]
      \<and> map resources (bands s0) = [59 / 100, 59 / 100]
      \<and> step shortfall_draws s0 = Inr (st, s')
      \<and> map resources (bands s') = [481 / 500, 253 / 250]
      \<and> (1::real) < 253 / 250"
proof -
  let ?s0 = "(new_simulation two_band_parameters
       [new_band 0 5 (250, 250) INDEPENDENT (59 / 100),
        new_band 1 5 (250, 250) INDEPENDENT (59 / 100)])\<lparr>rng := 10\<rparr>"
  have i: "init shortfall_draws two_band_parameters = Inr ?s0"
    by (simp add: init_def create_bands_def rng_uniform_def rng_integers_def rng_random_def
        two_band_parameters_def default_parameters_def default_population_def
        default_environment_def shortfall_draws_def new_simulation_def new_band_def
        create_aggregation_site_def Let_def numeral_2_eq_2)
  have "\<exists>st s'. step shortfall_draws ?s0 = Inr (st, s')
          \<and> map resources (bands s') = [481 / 500, 253 / 250]"
    using ln_two_bounds(2)
    by (simp add: two_band_parameters_def simulation_defs shortfall_draws_def logistic_pos
        Let_def)
      (use ln_two_bounds(1) in linarith)
  with i show ?thesis
    by (auto simp add: new_simulation_def new_band_def)
qed

end
